theory Spec2Isabelle
  imports Complex_Main
begin

section \<open>JavaScript values and strings\<close>

text \<open>
  The pipeline is written in JavaScript and TypeScript. A field of a message is a string,
  \<open>undefined\<close> or \<open>null\<close>; the three are kept apart because the source
  coerces them differently (\<open>x || ""\<close>, \<open>x?.toLowerCase()\<close>, and the implicit
  \<open>ToString\<close> of \<open>RegExp.prototype.test\<close>). Strings are lists of 8-bit characters:
  the model is exact for ASCII text, and a character above 127 has no case.
\<close>

datatype jsval = Undefined | Null | Str string

text \<open>Truthiness of \<open>!x\<close>, \<open>x && y\<close> and \<open>x || y\<close>: the empty string is falsy.\<close>

fun truthy :: "jsval \<Rightarrow> bool" where
  "truthy (Str s) = (s \<noteq> [])"
| "truthy Undefined = False"
| "truthy Null = False"

text \<open>\<open>x || ""\<close>\<close>

fun orEmpty :: "jsval \<Rightarrow> string" where
  "orEmpty (Str s) = s"
| "orEmpty Undefined = []"
| "orEmpty Null = []"

text \<open>\<open>a || b\<close> on values\<close>

definition orElse :: "jsval \<Rightarrow> jsval \<Rightarrow> jsval" where
  "orElse a b = (if truthy a then a else b)"

text \<open>\<open>ToString\<close>, applied by \<open>test\<close> to an argument that is not a string\<close>

fun toStr :: "jsval \<Rightarrow> string" where
  "toStr (Str s) = s"
| "toStr Undefined = ''undefined''"
| "toStr Null = ''null''"

text \<open>
  \<open>toLowerCase\<close> and the canonicalisation of the \<open>i\<close> flag (which is
  \<open>toUpperCase\<close>), on the bits of a character: bit 5 separates \<open>A..Z\<close>
  (0x41..0x5A) from \<open>a..z\<close> (0x61..0x7A).
\<close>

definition toLowerChar :: "char \<Rightarrow> char" where
  "toLowerChar c =
     (case c of Char b0 b1 b2 b3 b4 b5 b6 b7 \<Rightarrow>
        if \<not> b7 \<and> b6 \<and> \<not> b5 \<and> (b0 \<or> b1 \<or> b2 \<or> b3 \<or> b4)
           \<and> \<not> (b4 \<and> b3 \<and> (b2 \<or> (b1 \<and> b0)))
        then Char b0 b1 b2 b3 b4 True b6 b7 else c)"

definition toUpperChar :: "char \<Rightarrow> char" where
  "toUpperChar c =
     (case c of Char b0 b1 b2 b3 b4 b5 b6 b7 \<Rightarrow>
        if \<not> b7 \<and> b6 \<and> b5 \<and> (b0 \<or> b1 \<or> b2 \<or> b3 \<or> b4)
           \<and> \<not> (b4 \<and> b3 \<and> (b2 \<or> (b1 \<and> b0)))
        then Char b0 b1 b2 b3 b4 False b6 b7 else c)"

definition toLowerCase :: "string \<Rightarrow> string" where
  "toLowerCase s = map toLowerChar s"

text \<open>\<open>x?.toLowerCase() || ""\<close>\<close>

fun lowerOrEmpty :: "jsval \<Rightarrow> string" where
  "lowerOrEmpty (Str s) = toLowerCase s"
| "lowerOrEmpty Undefined = []"
| "lowerOrEmpty Null = []"

text \<open>\<open>x?.substring(a, b)\<close> for \<open>a \<le> b\<close>\<close>

fun substringOpt :: "nat \<Rightarrow> nat \<Rightarrow> jsval \<Rightarrow> jsval" where
  "substringOpt a b (Str s) = Str (take (b - a) (drop a s))"
| "substringOpt a b Undefined = Undefined"
| "substringOpt a b Null = Undefined"

definition isLineTerminator :: "char \<Rightarrow> bool" where
  "isLineTerminator c = (c = CHR 0x0A \<or> c = CHR 0x0D)"

text \<open>The class \<open>\s\<close>, which is also what \<open>trim\<close> strips.\<close>

definition isSpaceChar :: "char \<Rightarrow> bool" where
  "isSpaceChar c =
     (c \<in> set [CHR '' '', CHR 0x09, CHR 0x0A, CHR 0x0B, CHR 0x0C, CHR 0x0D, CHR 0xA0])"

definition isDigitChar :: "char \<Rightarrow> bool" where
  "isDigitChar c = (c \<in> set ''0123456789'')"

definition isWordChar :: "char \<Rightarrow> bool" where
  "isWordChar c =
     (c \<in> set ''abcdefghijklmnopqrstuvwxyzABCDEFGHIJKLMNOPQRSTUVWXYZ0123456789_'')"


text \<open>\<open>s.includes(p)\<close>\<close>

fun startsWith :: "string \<Rightarrow> string \<Rightarrow> bool" where
  "startsWith xs [] = True"
| "startsWith [] (p # ps) = False"
| "startsWith (x # xs) (p # ps) = (x = p \<and> startsWith xs ps)"


section \<open>Regular expressions\<close>

text \<open>
  The rule tables are tables of regular expressions, so the embedding carries a matcher
  with the semantics of ECMAScript: backtracking in priority order (leftmost alternative
  first, greedy quantifiers longest first, lazy ones shortest first), the flags \<open>i\<close>
  (ignore case), \<open>m\<close> (\<open>^\<close> and \<open>$\<close> at line breaks) and \<open>g\<close>, capture groups
  and negative lookahead. Every \<open>*\<close> and \<open>+\<close> of the source is applied to a single
  character (\<open>.\<close>, a class, a literal), which is what \<open>Star\<close> takes.

  A matcher state is the character before the current position (for \<open>^\<close>), the rest of
  the input, and the captures made so far, each as the rest of the input at the start and
  at the end of the group. \<open>rmatch\<close> returns every way to match, best first.
\<close>

datatype cls = CChar char | CRange char char | CSpace | CDigit | CWord

datatype atom = Dot | Class bool "cls list" | Chr char

datatype regex =
    Eps
  | Lit string
  | Wide nat
  | Atom atom
  | Bol
  | Eol
  | Cat regex regex
  | Alt regex regex
  | Opt regex
  | Star atom
  | LazyStar atom
  | Grp nat regex
  | NLook regex

text \<open>
  \<open>Lit\<close> is a run of literal characters; \<open>Wide n\<close> is a literal code unit above
  255, which no character of an 8-bit string equals; \<open>Class True\<close> is a negated class.
\<close>

definition Plus :: "atom \<Rightarrow> regex" where
  "Plus a = Cat (Atom a) (Star a)"


fun cat :: "regex list \<Rightarrow> regex" where
  "cat [] = Eps"
| "cat [r] = r"
| "cat (r # rs) = Cat r (cat rs)"

fun alt :: "regex list \<Rightarrow> regex" where
  "alt [] = NLook Eps"
| "alt [r] = r"
| "alt (r # rs) = Alt r (alt rs)"

datatype regexp = RegExp regex string

fun source :: "regexp \<Rightarrow> regex" where
  "source (RegExp r fl) = r"

fun ignoreCase :: "regexp \<Rightarrow> bool" where
  "ignoreCase (RegExp r fl) = (CHR ''i'' \<in> set fl)"

fun multiline :: "regexp \<Rightarrow> bool" where
  "multiline (RegExp r fl) = (CHR ''m'' \<in> set fl)"

fun global :: "regexp \<Rightarrow> bool" where
  "global (RegExp r fl) = (CHR ''g'' \<in> set fl)"

definition charEq :: "bool \<Rightarrow> char \<Rightarrow> char \<Rightarrow> bool" where
  "charEq ic a b = (if a = b then True else ic \<and> toUpperChar a = toUpperChar b)"

fun clsItem :: "cls \<Rightarrow> char \<Rightarrow> bool" where
  "clsItem (CChar a) c = (a = c)"
| "clsItem (CRange a b) c =
     (of_char a \<le> (of_char c :: nat) \<and> (of_char c :: nat) \<le> of_char b)"
| "clsItem CSpace c = isSpaceChar c"
| "clsItem CDigit c = isDigitChar c"
| "clsItem CWord c = isWordChar c"

fun atomMatch :: "bool \<Rightarrow> atom \<Rightarrow> char \<Rightarrow> bool" where
  "atomMatch ic Dot x = (\<not> isLineTerminator x)"
| "atomMatch ic (Chr c) x = charEq ic c x"
| "atomMatch ic (Class neg items) x =
     ((\<exists>i \<in> set items. clsItem i x
          \<or> (ic \<and> (clsItem i (toLowerChar x) \<or> clsItem i (toUpperChar x)))) \<noteq> neg)"

type_synonym captures = "(nat \<times> string \<times> string) list"

type_synonym mstate = "char option \<times> string \<times> captures"

fun litMatch ::
  "bool \<Rightarrow> string \<Rightarrow> char option \<Rightarrow> string \<Rightarrow> (char option \<times> string) option" where
  "litMatch ic [] p xs = Some (p, xs)"
| "litMatch ic (c # cs) p [] = None"
| "litMatch ic (c # cs) p (x # xs) =
     (if charEq ic c x then litMatch ic cs (Some x) xs else None)"

fun starMatch ::
  "bool \<Rightarrow> bool \<Rightarrow> atom \<Rightarrow> captures \<Rightarrow> char option \<Rightarrow> string \<Rightarrow> mstate list" where
  "starMatch ic greedy a g p [] = [(p, [], g)]"
| "starMatch ic greedy a g p (x # xs) =
     (let more = (if atomMatch ic a x then starMatch ic greedy a g (Some x) xs else [])
      in if greedy then more @ [(p, x # xs, g)] else (p, x # xs, g) # more)"

fun rmatch :: "bool \<Rightarrow> bool \<Rightarrow> regex \<Rightarrow> mstate \<Rightarrow> mstate list" where
  "rmatch ic ml Eps s = [s]"
| "rmatch ic ml (Lit cs) (p, xs, g) =
     (case litMatch ic cs p xs of None \<Rightarrow> [] | Some (p', xs') \<Rightarrow> [(p', xs', g)])"
| "rmatch ic ml (Wide n) s = []"
| "rmatch ic ml (Atom a) (p, xs, g) =
     (case xs of [] \<Rightarrow> []
      | x # xs' \<Rightarrow> if atomMatch ic a x then [(Some x, xs', g)] else [])"
| "rmatch ic ml Bol (p, xs, g) =
     (case p of None \<Rightarrow> [(p, xs, g)]
      | Some c \<Rightarrow> if ml \<and> isLineTerminator c then [(p, xs, g)] else [])"
| "rmatch ic ml Eol (p, xs, g) =
     (case xs of [] \<Rightarrow> [(p, xs, g)]
      | x # xs' \<Rightarrow> if ml \<and> isLineTerminator x then [(p, xs, g)] else [])"
| "rmatch ic ml (Cat a b) s = concat (map (rmatch ic ml b) (rmatch ic ml a s))"
| "rmatch ic ml (Alt a b) s = rmatch ic ml a s @ rmatch ic ml b s"
| "rmatch ic ml (Opt a) s =
     filter (\<lambda>t. length (fst (snd t)) < length (fst (snd s))) (rmatch ic ml a s) @ [s]"
| "rmatch ic ml (Star a) (p, xs, g) = starMatch ic True a g p xs"
| "rmatch ic ml (LazyStar a) (p, xs, g) = starMatch ic False a g p xs"
| "rmatch ic ml (Grp n a) s =
     map (\<lambda>t. (fst t, fst (snd t), (n, fst (snd s), fst (snd t)) # snd (snd t)))
         (rmatch ic ml a s)"
| "rmatch ic ml (NLook a) s = (if rmatch ic ml a s = [] then [s] else [])"

text \<open>
  The leftmost match: the start positions are tried from left to right, and at each the
  best match wins. The result is the rest of the input at the start of the match and the
  final state.
\<close>

fun searchFrom ::
  "bool \<Rightarrow> bool \<Rightarrow> regex \<Rightarrow> char option \<Rightarrow> string \<Rightarrow> (string \<times> mstate) option" where
  "searchFrom ic ml r p [] =
     (case rmatch ic ml r (p, [], []) of t # ts \<Rightarrow> Some ([], t) | [] \<Rightarrow> None)"
| "searchFrom ic ml r p (x # xs) =
     (case rmatch ic ml r (p, x # xs, []) of
        t # ts \<Rightarrow> Some (x # xs, t)
      | [] \<Rightarrow> searchFrom ic ml r (Some x) xs)"

text \<open>\<open>re.test(s)\<close> for a regular expression without the \<open>g\<close> flag\<close>

definition test :: "regexp \<Rightarrow> string \<Rightarrow> bool" where
  "test re s = (searchFrom (ignoreCase re) (multiline re) (source re) None s \<noteq> None)"




text \<open>
  \<open>s.replace(re, rep)\<close> for a replacement without \<open>$\<close>: the first match, or every
  match under the \<open>g\<close> flag. After an empty match the search moves on by one character.
\<close>

function replaceFrom ::
  "bool \<Rightarrow> bool \<Rightarrow> bool \<Rightarrow> regex \<Rightarrow> string \<Rightarrow> char option \<Rightarrow> string \<Rightarrow> string" where
  "replaceFrom gl ic ml r rep p xs =
     (case rmatch ic ml r (p, xs, []) of
        [] \<Rightarrow> (case xs of [] \<Rightarrow> []
               | x # xs' \<Rightarrow> x # replaceFrom gl ic ml r rep (Some x) xs')
      | t # ts \<Rightarrow>
          if length (fst (snd t)) < length xs
          then rep @ (if gl then replaceFrom gl ic ml r rep (fst t) (fst (snd t))
                      else fst (snd t))
          else (case xs of [] \<Rightarrow> rep
                | x # xs' \<Rightarrow>
                    rep @ x # (if gl then replaceFrom gl ic ml r rep (Some x) xs' else xs')))"
  by pat_completeness auto
termination
  by (relation "measure (\<lambda>(gl, ic, ml, r, rep, p, xs). length xs)") auto

declare replaceFrom.simps [simp del]

definition replace :: "regexp \<Rightarrow> string \<Rightarrow> string \<Rightarrow> string" where
  "replace re rep s =
     replaceFrom (global re) (ignoreCase re) (multiline re) (source re) rep None s"

section \<open>The rule engine (scripts/lib/classification-rules.js)\<close>

text \<open>
  A normalized message, with the fields the rule engine and the extraction engine read.
  \<open>fromAddr\<close> is the source's \<open>from\<close>; the staged form of a message names the same
  data \<open>fromEmail\<close> and \<open>bodyText\<close>, and the extraction engine reads either.
\<close>

record email =
  subject :: jsval
  fromAddr :: jsval
  fromEmail :: jsval
  fromName :: jsval
  textBody :: jsval
  bodyText :: jsval

definition CLASSIFICATION_TYPES :: "string list" where
  "CLASSIFICATION_TYPES =
     [''job_application'', ''job_response'', ''interview'', ''rejection'', ''offer'',
      ''follow_up'', ''other'']"

datatype fld = F_from | F_subject | F_senderName | F_textBody

datatype rule =
  Rule (field: fld) (pattern: regexp) (condition: "(email \<Rightarrow> bool) option") (reason: string)

definition rules_other :: "rule list" where
  "rules_other = [
    Rule F_from (RegExp (Lit ''jobnotification@'') ''i'') None ''job-alert-sender'',
    Rule F_from (RegExp (Lit ''jobs2web.com'') ''i'') None ''job-alert-sender'',
    Rule F_from (RegExp (Lit ''job-alerts@linkedin.com'') ''i'') None ''linkedin-job-alert'',
    Rule F_subject (RegExp (cat [Bol, Opt (Grp 1 (Lit ''your '')),
        Grp 2 (alt [Lit ''job alert'', cat [Lit ''new job'', Opt (Lit ''s''),
        Lit '' posted'']])]) ''i'') None ''job-alert-subject'',
    Rule F_subject (RegExp (cat [Lit ''job'', Opt (Lit ''s''), Lit '' '',
        Grp 1 (alt [Lit ''from'', Lit ''at'',
        Lit ''posted''])]) ''i'') None ''job-alert-subject'',
    Rule F_senderName (RegExp (cat [Lit ''job alert'',
        Opt (Lit ''s'')]) ''i'') None ''job-alert-sender-name'',
    Rule F_subject (RegExp (Lit ''top jobs from'') ''i'') None ''job-alert-subject'',
    Rule F_from (RegExp (alt [cat [Lit ''seek'', Star Dot, Lit ''grad''],
        Lit ''gradconnection'']) ''i'') None ''job-alert'',
    Rule F_from (RegExp (cat [Lit ''@linkedin.com'',
        Eol]) ''i'') (Some (\<lambda>e. test (RegExp (cat [Lit ''job alert'',
        Opt (Lit ''s'')]) ''i'') (orEmpty (fromName e)))) ''linkedin-alert'',
    Rule F_from (RegExp (cat [Lit ''@github.com'', Eol]) ''i'') None ''github'',
    Rule F_from (RegExp (Lit ''noreply@github.com'') ''i'') None ''github'',
    Rule F_subject (RegExp (cat [Lit ''['', Star Dot, Lit ''/'', Star Dot, Lit ''] '',
        Grp 1 (alt [Lit ''pull request'', Lit ''issue'', Lit ''push'',
        Lit ''comment''])]) ''i'') None ''github-notification'',
    Rule F_from (RegExp (Lit ''noreply-dmarc-support@google.com'') ''i'') None ''dmarc'',
    Rule F_subject (RegExp (cat [Bol, Grp 1 (alt [Lit ''security alert'', cat [Lit ''dmarc'',
        Star Dot, Lit ''report'']])]) ''i'') None ''security-alert'',
    Rule F_subject (RegExp (cat [Lit ''report domain:'', Star Dot,
        Lit ''submitter:'']) ''i'') None ''dmarc'',
    Rule F_from (RegExp (alt [cat [Lit ''dmarc'', Star Dot, Lit ''report''],
        Lit ''dmarc-support'']) ''i'') None ''dmarc'',
    Rule F_from (RegExp (cat [Lit ''@amazon.'', Grp 1 (alt [Lit ''com'', Lit ''co'',
        Lit ''com.au''])]) ''i'') None ''ecommerce'',
    Rule F_from (RegExp (Lit ''@costco'') ''i'') None ''retail'',
    Rule F_from (RegExp (Lit ''@garmin.'') ''i'') None ''service'',
    Rule F_from (RegExp (Lit ''@vultr.'') ''i'') None ''hosting'',
    Rule F_from (RegExp (Lit ''@kickstarter.'') ''i'') None ''crowdfunding'',
    Rule F_from (RegExp (Lit ''@ebay.'') ''i'') None ''ecommerce'',
    Rule F_from (RegExp (Lit ''@paypal.'') ''i'') None ''payments'',
    Rule F_from (RegExp (Lit ''@netflix.'') ''i'') None ''streaming'',
    Rule F_from (RegExp (Lit ''@spotify.'') ''i'') None ''streaming'',
    Rule F_from (RegExp (alt [Lit ''mailchimp'', Lit ''mcsv.net'']) ''i'') None ''marketing'',
    Rule F_from (RegExp (Lit ''@sendgrid.'') ''i'') None ''marketing'',
    Rule F_subject (RegExp (cat [Bol, Grp 1 (alt [Lit (''don'' @ CHR 0x27 # ''t miss''),
        Lit ''final hours'', Lit ''last chance''])]) ''i'') None ''marketing'',
    Rule F_subject (RegExp (alt [Lit ''unsubscribe'',
        Lit ''newsletter'']) ''i'') None ''marketing'',
    Rule F_from (RegExp (alt [Lit ''huggingface'', cat [Lit ''hugging'', Star Dot,
        Lit ''face'']]) ''i'') (Some (\<lambda>e. \<not> test (RegExp (alt [Lit ''job'',
        Lit ''career'', Lit ''apply'']) ''i'') (toStr (subject e)))) ''tech-newsletter'',
    Rule F_from (RegExp (cat [Lit ''@slack.com'',
        Eol]) ''i'') (Some (\<lambda>e. \<not> test (RegExp (alt [Lit ''onboard'',
        cat [Lit ''welcome'', Star Dot,
        Lit ''team'']]) ''i'') (toStr (subject e)))) ''slack-general'',
    Rule F_from (RegExp (cat [Lit ''@microsoft.com'',
        Eol]) ''i'') (Some (\<lambda>e. test (RegExp (alt [Lit ''learning goals'',
        Lit ''microsoft learn'']) ''i'') (toStr (subject e)))) ''newsletter'',
    Rule F_from (RegExp (cat [Lit ''ibm'', Star Dot,
        Lit ''avature'']) ''i'') (Some (\<lambda>e. test (RegExp (alt [Lit ''tips'',
        Lit ''webinar'', Lit ''event'', cat [Lit ''join'', Star Dot,
        Lit ''day'']]) ''i'') (toStr (subject e)))) ''ibm-marketing'',
    Rule F_from (RegExp (alt [cat [Lit ''workforce'', Star Dot, Lit ''australia''],
        Lit ''dewr.gov'']) ''i'') None ''govt-reporting'',
    Rule F_subject (RegExp (cat [Bol, Opt (Grp 1 (alt [Lit ''fwd:'', Lit ''re:''])),
        Star (Class False [CSpace]), Grp 2 (alt [Lit ''yo'', Lit ''hey'', Lit ''sup'',
        Lit ''running late'', Lit ''pdf'', cat [Lit ''.pdf'', Eol]])]) ''i'') None ''personal'',
    Rule F_subject (RegExp (cat [Bol, Opt (Grp 1 (alt [Lit ''fwd:'', Lit ''re:''])),
        Star (Class False [CSpace]), Plus (Class False [CWord]), Plus (Class False [CSpace]),
        Grp 2 (alt [Lit ''video'', Lit ''song'', Lit ''music'',
        Lit ''watch this''])]) ''i'') None ''personal-share'',
    Rule F_from (RegExp (alt [Lit ''vet'', Lit ''veterinary'', Lit ''petbarn'',
        cat [Lit ''pet'', Star Dot, Lit ''hospital'']]) ''i'') None ''pet-services'',
    Rule F_from (RegExp (alt [cat [Lit ''outlier'', Star Dot, Lit ''ai''],
        Lit ''@privateemail.com'']) ''i'') (Some (\<lambda>e. test (RegExp (alt [Lit ''action required'',
        Lit ''invitation'', cat [Lit ''matches'', Star Dot,
        Lit ''job'']]) ''i'') (toStr (subject e)))) ''recruitment-spam'',
    Rule F_subject (RegExp (cat [Lit ([CHR 0xF0]), Wide 0x0178, Wide 0x2022, Wide 0x0160,
        Lit (CHR 0xEF # [CHR 0xB8]), Star Dot, Lit ''action required'', Star Dot,
        Lit ''invitation'']) ''i'') None ''recruitment-spam'',
    Rule F_subject (RegExp (alt [Lit ''webinar'', cat [Lit ''event'', Star Dot,
        Lit ''registration''], cat [Lit ''join'', Star Dot,
        Lit ''session'']]) ''i'') (Some (\<lambda>e. \<not> test (RegExp (alt [Lit ''interview'',
        Lit ''screen'', Lit ''assessment'']) ''i'') (toStr (subject e)))) ''event-invite'',
    Rule F_subject (RegExp (alt [Lit ''go beyond human limits'', cat [Lit ''day'',
        Opt (Lit ''s''), Lit '' to go:'']]) ''i'') None ''event-promo''
  ]"

definition rules_job_response :: "rule list" where
  "rules_job_response = [
    Rule F_subject (RegExp (cat [Lit ''thank'', Grp 1 (alt [Lit ''s'', cat [Opt (Lit '' ''),
        Lit ''you''], Lit ''you'']), Lit '' for '', Opt (Grp 2 (Lit ''your '')),
        Grp 3 (alt [Lit ''apply'', Lit ''application'',
        Lit ''interest''])]) ''i'') None ''thank-you-applying'',
    Rule F_subject (RegExp (cat [Lit ''we'', Grp 1 (alt [Lit (CHR 0x27 # ''ve''),
        Lit '' have'']),
        Lit '' received your application'']) ''i'') None ''received-application'',
    Rule F_subject (RegExp (cat [Lit ''application '', Grp 1 (alt [Lit ''received'',
        Lit ''submitted'', Lit ''complete'',
        Lit ''acknowledged''])]) ''i'') None ''application-received'',
    Rule F_subject (RegExp (cat [Lit ''your application '', Grp 1 (alt [Lit ''for'',
        Lit ''to'', Lit ''at'', Lit ''with''])]) ''i'') None ''your-application'',
    Rule F_subject (RegExp (Lit ''thanks for applying'') ''i'') None ''thanks-applying'',
    Rule F_subject (RegExp (Lit ''thank you for your interest in'') ''i'') None ''thank-interest'',
    Rule F_from (RegExp (cat [Lit ''@'', Star Dot,
        Lit ''workday'']) ''i'') (Some (\<lambda>e. test (RegExp (alt [Lit ''thank'',
        Lit ''received'',
        Lit ''application'']) ''i'') (toStr (subject e)))) ''workday-confirmation'',
    Rule F_from (RegExp (alt [Lit ''recruitment@'', Lit ''careers@'', Lit ''talent@'',
        Lit ''hiring@'']) ''i'') (Some (\<lambda>e. test (RegExp (alt [Lit ''thank'',
        Lit ''received'',
        Lit ''confirm'']) ''i'') (toStr (subject e)))) ''recruitment-confirmation'',
    Rule F_from (RegExp (alt [Lit ''greenhouse'', Lit ''lever'', Lit ''icims'',
        Lit ''jobvite'',
        Lit ''smartrecruiters'']) ''i'') (Some (\<lambda>e. test (RegExp (alt [Lit ''thank'',
        Lit ''received'', Lit ''apply'']) ''i'') (toStr (subject e)))) ''ats-confirmation'',
    Rule F_subject (RegExp (cat [Lit ''we got it'', Star Dot,
        Lit ''in the mix'']) ''i'') None ''canva-confirmation'',
    Rule F_subject (RegExp (Lit ''application viewed'') ''i'') None ''application-viewed'',
    Rule F_subject (RegExp (cat [Lit ''verify your candidate '', Grp 1 (alt [Lit ''account'',
        Lit ''profile''])]) ''i'') None ''account-verify'',
    Rule F_subject (RegExp (alt [Lit ''good move'', cat [Lit ''you'',
        Grp 1 (alt [Lit (CHR 0x27 # ''re''), Lit '' are'']),
        Lit '' in the mix'']]) ''i'') None ''confirmation-positive'',
    Rule F_subject (RegExp (cat [Lit ''your'', Star Dot,
        Lit ''journey begins'']) ''i'') None ''journey-begins'',
    Rule F_subject (RegExp (Lit ''job application acknowledgment'') ''i'') None ''acknowledgment'',
    Rule F_subject (RegExp (Lit ''registration confirmation'') ''i'') (Some (\<lambda>e. test (RegExp (alt [Lit ''recruit'',
        Lit ''career'',
        Lit ''talent'']) ''i'') (toStr (fromAddr e)))) ''recruitment-registration'',
    Rule F_subject (RegExp (cat [Lit ''welcome to'', Star Dot,
        Lit ''careers'']) ''i'') None ''careers-welcome'',
    Rule F_from (RegExp (Lit ''springboard.com.au'') ''i'') (Some (\<lambda>e. test (RegExp (alt [Lit ''application'',
        Lit ''reference'']) ''i'') (toStr (subject e)))) ''springboard-confirmation'',
    Rule F_subject (RegExp (Lit ''received your job application'') ''i'') None ''received-job-app''
  ]"

definition rules_interview :: "rule list" where
  "rules_interview = [
    Rule F_subject (RegExp (cat [Lit ''interview '', Grp 1 (alt [Lit ''invite'',
        Lit ''invitation'', Lit ''confirm'',
        Lit ''schedule''])]) ''i'') None ''interview-invite'',
    Rule F_subject (RegExp (Lit ''phone screen'') ''i'') None ''phone-screen'',
    Rule F_subject (RegExp (cat [Lit ''you'', Grp 1 (alt [Lit (CHR 0x27 # ''re''),
        Lit '' are'']), Lit '' invited'', Star Dot, Grp 2 (alt [Lit ''interview'',
        Lit ''screen'', Lit ''call'', Lit ''assessment''])]) ''i'') None ''invited-interview'',
    Rule F_subject (RegExp (cat [Lit ''schedule'', Star Dot, Grp 1 (alt [Lit ''interview'',
        Lit ''call'', Lit ''meeting''])]) ''i'') None ''schedule-interview'',
    Rule F_subject (RegExp (cat [Lit ''invitation:'', Star Dot,
        Lit ''interview'']) ''i'') None ''calendar-interview'',
    Rule F_subject (RegExp (cat [Grp 1 (alt [Lit ''technical'', Lit ''coding'']), Lit '' '',
        Grp 2 (alt [Lit ''assessment'', Lit ''challenge'',
        Lit ''test''])]) ''i'') None ''assessment'',
    Rule F_subject (RegExp (cat [Lit ''skills'', Star Dot,
        Lit ''assessment'']) ''i'') None ''skills-assessment'',
    Rule F_subject (RegExp (Lit ''role alignment discussion'') ''i'') None ''alignment-call'',
    Rule F_subject (RegExp (Lit ''talent introduction session'') ''i'') None ''intro-session'',
    Rule F_subject (RegExp (cat [Lit ''in-person'', Star Dot, Grp 1 (alt [Lit ''assessment'',
        Lit ''interview'', Lit ''meeting''])]) ''i'') None ''in-person-interview'',
    Rule F_subject (RegExp (cat [Lit ''online'', Star Dot, Grp 1 (alt [Lit ''assessment'',
        Lit ''interview'', Lit ''discussion''])]) ''i'') None ''online-interview'',
    Rule F_subject (RegExp (cat [Lit ''video '', Grp 1 (alt [Lit ''interview'', Lit ''call'',
        Lit ''screen''])]) ''i'') None ''video-interview'',
    Rule F_subject (RegExp (alt [cat [Lit ''next'', Star Dot, Lit ''round''],
        cat [Lit ''round'', Star Dot, Lit ''interview'']]) ''i'') None ''next-round'',
    Rule F_subject (RegExp (alt [cat [Lit ''meet'', Star Dot, Lit ''team''], cat [Lit ''team'',
        Star Dot,
        Lit ''meet'']]) ''i'') (Some (\<lambda>e. test (RegExp (alt [Lit ''interview'',
        Lit ''hire'', Lit ''recruit'']) ''i'') (toStr (fromAddr e)))) ''team-meet'',
    Rule F_subject (RegExp (cat [Bol,
        Lit ''invitation:'']) ''i'') (Some (\<lambda>e. test (RegExp (alt [Lit ''interview'',
        Lit ''screen'', Lit ''assessment'',
        Lit ''call'']) ''i'') (toStr (subject e)))) ''calendar-invite''
  ]"

definition rules_rejection :: "rule list" where
  "rules_rejection = [
    Rule F_subject (RegExp (Lit ''application outcome'') ''i'') (Some (\<lambda>e. \<not> test (RegExp (alt [Lit ''thank'',
        Lit ''received'']) ''i'') (toStr (subject e)))) ''outcome-likely-rejection'',
    Rule F_subject (RegExp (Lit ''outcome of your application'') ''i'') None ''outcome'',
    Rule F_subject (RegExp (cat [Lit ''unsuccessful'', Star Dot,
        Lit ''application'']) ''i'') None ''unsuccessful'',
    Rule F_subject (RegExp (cat [Lit ''update'', Star Dot,
        Lit ''application'']) ''i'') (Some (\<lambda>e. test (RegExp (alt [Lit ''regret'',
        Lit ''unfortunately'', Lit ''unable'', Lit ''ineligible'', cat [Lit ''not'', Star Dot,
        Lit ''proceed''], cat [Lit ''not'', Star Dot,
        Lit ''successful'']]) ''i'') (orEmpty (substringOpt 0 500 (textBody e))))) ''rejection-update'',
    Rule F_subject (RegExp (cat [Lit ''we'', Grp 1 (alt [Lit (CHR 0x27 # ''ve''),
        Lit '' have'']),
        Lit '' reviewed your application'']) ''i'') None ''reviewed-likely-rejection'',
    Rule F_subject (RegExp (cat [Lit ''not '', Opt (Grp 1 (Lit ''be '')),
        Grp 2 (alt [Lit ''moving'', Lit ''proceed'', Lit ''progress'']),
        Lit ''ing forward'']) ''i'') None ''not-proceeding'',
    Rule F_subject (RegExp (Lit ''regret to inform'') ''i'') None ''regret'',
    Rule F_subject (RegExp (alt [Lit ''role update'', cat [Lit ''position'', Star Dot,
        Lit ''update'']]) ''i'') (Some (\<lambda>e. \<not> test (RegExp (alt [Lit ''interview'',
        Lit ''schedule'']) ''i'') (toStr (subject e)))) ''role-update-rejection'',
    Rule F_subject (RegExp (alt [cat [Lit ''application'', Star Dot, Lit ''status''],
        cat [Lit ''status'', Star Dot,
        Lit ''application'']]) ''i'') (Some (\<lambda>e. test (RegExp (alt [Lit ''close'',
        Lit ''filled'', cat [Lit ''not'', Star Dot,
        Lit ''selected'']]) ''i'') (orEmpty (substringOpt 0 500 (textBody e))))) ''status-rejection'',
    Rule F_subject (RegExp (cat [Lit ''thank you for'', Star Dot,
        Lit ''interest'']) ''i'') (Some (\<lambda>e. test (RegExp (alt [Lit ''unfortunately'',
        Lit ''regret'', Lit ''unable'', Lit ''ineligible'', cat [Lit ''not'', Star Dot,
        Lit ''time''],
        Lit ''other candidates'']) ''i'') (orEmpty (substringOpt 0 500 (textBody e))))) ''polite-rejection''
  ]"

definition rules_follow_up :: "rule list" where
  "rules_follow_up = [
    Rule F_subject (RegExp (cat [Lit ''reminder:'', Star Dot,
        Lit ''application'']) ''i'') None ''application-reminder'',
    Rule F_subject (RegExp (Lit ''next steps'') ''i'') (Some (\<lambda>e. \<not> test (RegExp (Grp 1 (alt [Lit ''thank'',
        Lit ''received''])) ''i'') (toStr (subject e)))) ''next-steps'',
    Rule F_subject (RegExp (Lit ''finish your application'') ''i'') None ''finish-application'',
    Rule F_subject (RegExp (cat [Lit ''complete your '', Grp 1 (alt [Lit ''application'',
        Lit ''profile'', Lit ''assessment''])]) ''i'') None ''complete-application'',
    Rule F_subject (RegExp (Lit ''waiting for your'') ''i'') None ''waiting'',
    Rule F_from (RegExp (alt [Lit ''codesignal'', Lit ''hackerrank'',
        Lit ''codility'']) ''i'') (Some (\<lambda>e. test (RegExp (alt [Lit ''reminder'',
        Lit ''waiting'', Lit ''complete'']) ''i'') (toStr (subject e)))) ''assessment-reminder'',
    Rule F_subject (RegExp (cat [Lit ''assessment '', Grp 1 (alt [Lit ''completed'',
        Lit ''submitted''])]) ''i'') None ''assessment-completed'',
    Rule F_subject (RegExp (alt [cat [Lit ''recruiters'', Star Dot, Lit ''looking''],
        cat [Lit ''profile'', Star Dot, Lit ''view'']]) ''i'') None ''profile-activity'',
    Rule F_subject (RegExp (cat [Lit ''what'', Grp 1 (alt [Lit (CHR 0x27 # ''s''),
        Lit '' is'']), Lit '' next'']) ''i'') None ''whats-next'',
    Rule F_subject (RegExp (cat [Lit ''you'', Grp 1 (alt [Lit (CHR 0x27 # ''ve''),
        Lit '' have'']), Lit '' applied'', Star Dot,
        Lit ''what next'']) ''i'') None ''applied-next'',
    Rule F_subject (RegExp (cat [Lit ''keep receiving'', Star Dot,
        Lit ''email'']) ''i'') None ''email-preferences'',
    Rule F_subject (RegExp (cat [Lit ''update on'', Star Dot,
        Lit ''recruitment'']) ''i'') None ''recruitment-update'',
    Rule F_subject (RegExp (alt [cat [Lit ''take'', Star Dot, Lit ''step''],
        cat [Lit ''final'', Star Dot,
        Lit ''step'']]) ''i'') (Some (\<lambda>e. \<not> test (RegExp (Lit ''interview'') ''i'') (toStr (subject e)))) ''take-step'',
    Rule F_from (RegExp (Lit ''testgorilla'') ''i'') (Some (\<lambda>e. test (RegExp (alt [Lit ''submitted'',
        Lit ''next'', Lit ''result'']) ''i'') (toStr (subject e)))) ''testgorilla-followup''
  ]"

text \<open>The object literal \<open>CLASSIFICATION_RULES\<close>, its keys in the order of the source.\<close>

definition CLASSIFICATION_RULES :: "(string \<times> rule list) list" where
  "CLASSIFICATION_RULES =
     [(''other'', rules_other),
      (''job_response'', rules_job_response),
      (''interview'', rules_interview),
      (''rejection'', rules_rejection),
      (''follow_up'', rules_follow_up)]"

record classification =
  ctype :: string
  confidence :: real

record ruleResult = classification +
  ruleReason :: string
  ruleMatched :: bool

text \<open>The object \<open>fields\<close> of \<open>classifyByRules\<close>, read at \<open>rule.field\<close>.\<close>

fun fieldValue :: "email \<Rightarrow> fld \<Rightarrow> string" where
  "fieldValue e F_from = lowerOrEmpty (fromAddr e)"
| "fieldValue e F_subject = lowerOrEmpty (subject e)"
| "fieldValue e F_senderName = lowerOrEmpty (fromName e)"
| "fieldValue e F_textBody = orEmpty (textBody e)"

text \<open>A rule fires when its pattern matches its field and its condition, if any, holds.\<close>

definition fires :: "email \<Rightarrow> rule \<Rightarrow> bool" where
  "fires e r =
     (test (pattern r) (fieldValue e (field r))
      \<and> (case condition r of None \<Rightarrow> True | Some c \<Rightarrow> c e))"

text \<open>The inner loop: the first rule of a label that fires.\<close>

fun firstRule :: "email \<Rightarrow> rule list \<Rightarrow> rule option" where
  "firstRule e [] = None"
| "firstRule e (r # rs) =
     (if test (pattern r) (fieldValue e (field r))
      then (case condition r of
              Some c \<Rightarrow> if \<not> c e then firstRule e rs else Some r
            | None \<Rightarrow> Some r)
      else firstRule e rs)"

text \<open>\<open>CLASSIFICATION_RULES[type] || []\<close>\<close>

definition rulesFor :: "(string \<times> rule list) list \<Rightarrow> string \<Rightarrow> rule list" where
  "rulesFor tbl ty = (case map_of tbl ty of Some rs \<Rightarrow> rs | None \<Rightarrow> [])"

text \<open>The outer loop over the labels, in the order it is given.\<close>

fun classifyIn :: "(string \<times> rule list) list \<Rightarrow> email \<Rightarrow> string list \<Rightarrow> ruleResult option" where
  "classifyIn tbl e [] = None"
| "classifyIn tbl e (ty # tys) =
     (case firstRule e (rulesFor tbl ty) of
        Some r \<Rightarrow>
          Some \<lparr>ctype = ty, confidence = 0.95, ruleReason = reason r, ruleMatched = True\<rparr>
      | None \<Rightarrow> classifyIn tbl e tys)"

definition checkOrder :: "string list" where
  "checkOrder = [''other'', ''interview'', ''rejection'', ''job_response'', ''follow_up'']"

text \<open>\<open>None\<close> is the \<open>null\<close> of the source: no rule matched.\<close>

definition classifyByRules :: "email \<Rightarrow> ruleResult option" where
  "classifyByRules e = classifyIn CLASSIFICATION_RULES e checkOrder"

definition isHighVarianceCorrection :: "email \<Rightarrow> string \<Rightarrow> string \<Rightarrow> bool" where
  "isHighVarianceCorrection e originalType correctedType =
     (case classifyByRules e of Some ruleResult \<Rightarrow> False | None \<Rightarrow> True)"

section \<open>The extraction engine (scripts/lib/extraction-rules.js)\<close>



































record extracted =
  company :: jsval
  jobTitle :: jsval
  location :: jsval
  applicationUrl :: jsval
  source :: jsval
  jobType :: jsval






definition isExtractionComplete :: "extracted \<Rightarrow> bool" where
  "isExtractionComplete d = (truthy (company d) \<and> truthy (jobTitle d))"

definition needsLLMFallback :: "extracted \<Rightarrow> bool" where
  "needsLLMFallback d = (\<not> truthy (company d) \<or> \<not> truthy (jobTitle d))"

text \<open>
  \<open>mergeExtractedData\<close> works on plain objects: an object is the list of its keys and
  values, in insertion order. Reading a missing key gives \<open>undefined\<close>; writing a
  present key keeps its place.
\<close>

type_synonym obj = "(string \<times> jsval) list"

definition getProp :: "obj \<Rightarrow> string \<Rightarrow> jsval" where
  "getProp ob k = (case map_of ob k of Some v \<Rightarrow> v | None \<Rightarrow> Undefined)"

fun setProp :: "obj \<Rightarrow> string \<Rightarrow> jsval \<Rightarrow> obj" where
  "setProp [] k v = [(k, v)]"
| "setProp ((k', v') # ob) k v =
     (if k' = k then (k, v) # ob else (k', v') # setProp ob k v)"

fun mergeKeys :: "obj \<Rightarrow> obj \<Rightarrow> string list \<Rightarrow> obj" where
  "mergeKeys result newData [] = result"
| "mergeKeys result newData (key # keys) =
     mergeKeys
       (if truthy (getProp newData key) \<and> \<not> truthy (getProp result key)
        then setProp result key (getProp newData key) else result)
       newData keys"

definition mergeExtractedData :: "obj \<Rightarrow> obj \<Rightarrow> obj" where
  "mergeExtractedData existing newData = mergeKeys existing newData (map fst newData)"

section \<open>The LLM classifiers\<close>

text \<open>
  Calls that can fail are modelled by their outcome: what was thrown, or what was
  returned. A thrown value is an \<open>Error\<close> with its message, or something else.
\<close>

datatype thrown = Error string | NotAnError

datatype 'a outcome = Throws thrown | Returns 'a

text \<open>\<open>error instanceof Error ? error.message : "Unknown error"\<close>\<close>

fun errorMessage :: "thrown \<Rightarrow> string" where
  "errorMessage (Error msg) = msg"
| "errorMessage NotAnError = ''Unknown error''"

record emailClassification = classification +
  reasoning :: string
  extractedData :: obj

subsection \<open>The server (src/lib/email/classifier.ts)\<close>

text \<open>
  \<open>classifyEmail\<close> wraps \<open>getModel\<close>, the prompt and \<open>generateObject\<close> in one
  \<open>try\<close>: the argument is the outcome of that block (a network error, a response
  that is not a success, and an object that does not parse against the schema all throw).
\<close>

definition classifyEmail :: "emailClassification outcome \<Rightarrow> emailClassification" where
  "classifyEmail generated =
     (case generated of
        Returns result \<Rightarrow> result
      | Throws err \<Rightarrow>
          \<lparr>ctype = ''other'', confidence = 0,
           reasoning = ''Classification failed: '' @ errorMessage err,
           extractedData =
             [(''company'', Null), (''jobTitle'', Null), (''location'', Null),
              (''applicationUrl'', Null), (''recruiterName'', Null), (''interviewDate'', Null),
              (''deadline'', Null), (''salaryRange'', Null)]\<rparr>)"

definition isJobRelated :: "'a classification_scheme \<Rightarrow> bool" where
  "isJobRelated c = (ctype c \<noteq> ''other'')"

definition DEFAULT_THRESHOLD :: real where
  "DEFAULT_THRESHOLD = 0.6"

definition meetsConfidenceThreshold :: "'a classification_scheme \<Rightarrow> real \<Rightarrow> bool" where
  "meetsConfidenceThreshold c threshold = (confidence c \<ge> threshold)"

subsection \<open>The local agent (scripts/jobsync-local-sync.js)\<close>



text \<open>\<open>response.ok\<close>\<close>

definition ok :: "nat \<Rightarrow> bool" where
  "ok status = (200 \<le> status \<and> status \<le> 299)"


section \<open>The staging protocol (src/app/api/email-sync/route.ts)\<close>

text \<open>
  The two tables the endpoint touches. \<open>EmailImport.messageId\<close> carries a unique index
  (\<open>EmailImport_messageId_key\<close>), and so does \<open>EmailAccount.email\<close>. Identifiers are
  generated by the store; an account is identified here by its address.
\<close>

record emailAccount =
  acc_userId :: string
  acc_email :: string
  acc_isActive :: bool

record emailImport =
  row_userId :: string
  row_emailAccountId :: string
  row_messageId :: string
  row_subject :: string
  row_fromEmail :: string
  row_fromName :: jsval
  row_toEmail :: string
  row_bodyText :: jsval
  row_bodyHtml :: jsval
  row_classification :: string
  row_confidence :: real
  row_isOutbound :: bool
  row_extractedData :: "obj option"
  row_status :: string

record database =
  emailImports :: "emailImport list"
  emailAccounts :: "emailAccount list"

text \<open>\<open>prisma.emailImport.findUnique({ where: { messageId } })\<close>\<close>

definition findUnique :: "database \<Rightarrow> string \<Rightarrow> emailImport option" where
  "findUnique db mid = find (\<lambda>r. row_messageId r = mid) (emailImports db)"

text \<open>\<open>prisma.emailAccount.upsert\<close> with an empty update\<close>

definition upsertAccount :: "string \<Rightarrow> string \<Rightarrow> database \<Rightarrow> database" where
  "upsertAccount userId addr db =
     (if \<exists>a \<in> set (emailAccounts db). acc_email a = addr then db
      else db\<lparr>emailAccounts := emailAccounts db
                 @ [\<lparr>acc_userId = userId, acc_email = addr, acc_isActive = True\<rparr>]\<rparr>)"

text \<open>\<open>prisma.emailAccount.findFirst({ where: { email: { in: MONITORED_EMAILS }, isActive: true } })\<close>\<close>

definition findActiveAccount :: "string list \<Rightarrow> database \<Rightarrow> emailAccount option" where
  "findActiveAccount monitored db =
     find (\<lambda>a. acc_email a \<in> set monitored \<and> acc_isActive a) (emailAccounts db)"

text \<open>\<open>prisma.emailImport.create\<close>: the unique index rejects a second row of a messageId.\<close>

definition createImport :: "database \<Rightarrow> emailImport \<Rightarrow> database outcome" where
  "createImport db row =
     (if \<exists>r \<in> set (emailImports db). row_messageId r = row_messageId row
      then Throws (Error ''Unique constraint failed on the fields: (`messageId`)'')
      else Returns (db\<lparr>emailImports := emailImports db @ [row]\<rparr>))"

record syncResult =
  processed :: nat
  skipped :: nat
  errors :: "string list"

record preClassifiedImport =
  imp_messageId :: string
  imp_subject :: string
  imp_fromEmail :: string
  imp_fromName :: jsval
  imp_toEmail :: string
  imp_emailDate :: string
  imp_bodyText :: jsval
  imp_bodyHtml :: jsval
  imp_classification :: string
  imp_confidence :: real
  imp_isOutbound :: bool
  imp_extractedData :: "obj option"

subsection \<open>Pre-classified imports\<close>

text \<open>The \<open>data\<close> of \<open>prisma.emailImport.create\<close> for a pre-classified import.\<close>

definition importRow :: "string \<Rightarrow> emailAccount \<Rightarrow> preClassifiedImport \<Rightarrow> emailImport" where
  "importRow userId account imp =
     \<lparr>row_userId = userId,
      row_emailAccountId = acc_email account,
      row_messageId = imp_messageId imp,
      row_subject = imp_subject imp,
      row_fromEmail = imp_fromEmail imp,
      row_fromName = orElse (imp_fromName imp) Null,
      row_toEmail = imp_toEmail imp,
      row_bodyText = orElse (substringOpt 0 10000 (imp_bodyText imp)) Null,
      row_bodyHtml = orElse (substringOpt 0 50000 (imp_bodyHtml imp)) Null,
      row_classification = imp_classification imp,
      row_confidence = imp_confidence imp,
      row_isOutbound = imp_isOutbound imp,
      row_extractedData = imp_extractedData imp,
      row_status = ''pending''\<rparr>"

text \<open>The body of the loop over \<open>imports\<close>, on the store and the counts.\<close>

definition importOne ::
  "string list \<Rightarrow> string \<Rightarrow> database \<times> syncResult \<Rightarrow> preClassifiedImport
     \<Rightarrow> database \<times> syncResult" where
  "importOne monitored userId st imp =
     (let db = fst st; res = snd st in
      case findUnique db (imp_messageId imp) of
        Some existing \<Rightarrow> (db, res\<lparr>skipped := skipped res + 1\<rparr>)
      | None \<Rightarrow>
          (case findActiveAccount monitored db of
             None \<Rightarrow>
               (db, res\<lparr>errors := errors res
                    @ [''No email account for ''
                       @ (if imp_isOutbound imp then imp_fromEmail imp else imp_toEmail imp)]\<rparr>)
           | Some account \<Rightarrow>
               (case createImport db (importRow userId account imp) of
                  Returns db' \<Rightarrow> (db', res\<lparr>processed := processed res + 1\<rparr>)
                | Throws err \<Rightarrow>
                    (db, res\<lparr>errors := errors res
                         @ [''Error importing '' @ imp_messageId imp @ '': ''
                            @ errorMessage err]\<rparr>))))"

text \<open>The accounts of the monitored addresses among the senders and recipients.\<close>

definition uniqueEmails :: "preClassifiedImport list \<Rightarrow> string list" where
  "uniqueEmails imports =
     rev (remdups (rev (concat (map (\<lambda>imp. [imp_fromEmail imp, imp_toEmail imp]) imports))))"

definition ensureAccounts ::
  "string list \<Rightarrow> string \<Rightarrow> preClassifiedImport list \<Rightarrow> database \<Rightarrow> database" where
  "ensureAccounts monitored userId imports db =
     foldl (\<lambda>d addr. if addr \<in> set monitored then upsertAccount userId addr d else d) db
       (uniqueEmails imports)"

definition handlePreClassifiedImports ::
  "string list \<Rightarrow> string \<Rightarrow> preClassifiedImport list \<Rightarrow> database \<Rightarrow> database \<times> syncResult" where
  "handlePreClassifiedImports monitored userId imports db =
     foldl (importOne monitored userId)
       (ensureAccounts monitored userId imports db,
        \<lparr>processed = 0, skipped = 0, errors = []\<rparr>)
       imports"

subsection \<open>Local mode\<close>

text \<open>
  The server's own parser and classifier. For each file the mail store returned, the
  environment supplies what \<open>parseEmailFile\<close> came to and what the model call inside
  \<open>classifyEmail\<close> came to. \<open>tagged\<close> is the external tag store: the messages that
  \<open>markEmailProcessed\<close> tagged \<open>jobsync-processed\<close>.
\<close>

record parsedEmail =
  p_messageId :: string
  p_subject :: string
  p_from :: string
  p_fromName :: jsval
  p_to :: string
  p_textBody :: jsval
  p_htmlBody :: jsval
  p_isOutbound :: bool

record mailFile =
  filePath :: string
  parseResult :: "parsedEmail outcome"
  modelResult :: "emailClassification outcome"

record localState =
  store :: database
  tagged :: "string list"
  counts :: syncResult

definition markEmailProcessed :: "string \<Rightarrow> localState \<Rightarrow> localState" where
  "markEmailProcessed mid st = st\<lparr>tagged := tagged st @ [mid]\<rparr>"

definition skip :: "localState \<Rightarrow> localState" where
  "skip st = st\<lparr>counts := (counts st)\<lparr>skipped := skipped (counts st) + 1\<rparr>\<rparr>"

definition fail :: "string \<Rightarrow> thrown \<Rightarrow> localState \<Rightarrow> localState" where
  "fail path err st =
     st\<lparr>counts := (counts st)\<lparr>errors := errors (counts st)
           @ [''Error processing '' @ path @ '': '' @ errorMessage err]\<rparr>\<rparr>"

text \<open>The \<open>data\<close> of \<open>prisma.emailImport.create\<close> in local mode.\<close>

definition localRow ::
  "string \<Rightarrow> emailAccount \<Rightarrow> parsedEmail \<Rightarrow> emailClassification \<Rightarrow> emailImport" where
  "localRow userId account parsed classification =
     \<lparr>row_userId = userId,
      row_emailAccountId = acc_email account,
      row_messageId = p_messageId parsed,
      row_subject = p_subject parsed,
      row_fromEmail = p_from parsed,
      row_fromName = p_fromName parsed,
      row_toEmail = p_to parsed,
      row_bodyText = orElse (substringOpt 0 10000 (p_textBody parsed)) Null,
      row_bodyHtml = orElse (substringOpt 0 50000 (p_htmlBody parsed)) Null,
      row_classification = ctype classification,
      row_confidence = confidence classification,
      row_isOutbound = p_isOutbound parsed,
      row_extractedData = Some (extractedData classification),
      row_status = ''pending''\<rparr>"

definition localOne :: "string list \<Rightarrow> string \<Rightarrow> localState \<Rightarrow> mailFile \<Rightarrow> localState" where
  "localOne monitored userId st f =
     (case parseResult f of
        Throws err \<Rightarrow> fail (filePath f) err st
      | Returns parsed \<Rightarrow>
          (case findUnique (store st) (p_messageId parsed) of
             Some existing \<Rightarrow> skip st
           | None \<Rightarrow>
               (let classification = classifyEmail (modelResult f) in
                if \<not> isJobRelated classification
                   \<or> \<not> meetsConfidenceThreshold classification DEFAULT_THRESHOLD
                then skip (markEmailProcessed (p_messageId parsed) st)
                else
                  (case findActiveAccount monitored (store st) of
                     None \<Rightarrow> skip st
                   | Some account \<Rightarrow>
                       (case createImport (store st)
                               (localRow userId account parsed classification) of
                          Throws err \<Rightarrow> fail (filePath f) err st
                        | Returns db' \<Rightarrow>
                            (let st' = markEmailProcessed (p_messageId parsed)
                                         (st\<lparr>store := db'\<rparr>)
                             in st'\<lparr>counts := (counts st')
                                      \<lparr>processed := processed (counts st') + 1\<rparr>\<rparr>))))))"

text \<open>
  \<open>handleLocalMode\<close> after the availability check: the accounts of the monitored
  addresses are ensured, then each file is processed.
\<close>

definition handleLocalMode ::
  "string list \<Rightarrow> string \<Rightarrow> mailFile list \<Rightarrow> database \<Rightarrow> string list \<Rightarrow> localState" where
  "handleLocalMode monitored userId files db tags =
     foldl (localOne monitored userId)
       \<lparr>store = foldl (\<lambda>d addr. upsertAccount userId addr d) db monitored,
        tagged = tags,
        counts = \<lparr>processed = 0, skipped = 0, errors = []\<rparr>\<rparr>
       files"

subsection \<open>Corrections (PATCH)\<close>

record correctionMsg =
  cm_messageId :: string
  cm_originalType :: string
  cm_correctedType :: string

definition cleanMessageId :: "string \<Rightarrow> string" where
  "cleanMessageId mid =
     replace (RegExp (alt [cat [Bol, Lit ''<''], cat [Lit ''>'', Eol]]) ''g'') '''' mid"

text \<open>
  One correction: the first row whose messageId is the cleaned id, the cleaned id in angle
  brackets, or the id as sent, gets the corrected type; nothing else of the row changes
  (the row is addressed by its identifier, for which its unique messageId stands here).
  The result counts \<open>updated\<close> and \<open>notFound\<close>.
\<close>

definition patchOne :: "database \<times> nat \<times> nat \<Rightarrow> correctionMsg \<Rightarrow> database \<times> nat \<times> nat" where
  "patchOne st c =
     (let db = fst st; updated = fst (snd st); notFound = snd (snd st);
          clean = cleanMessageId (cm_messageId c);
          hit = (\<lambda>r. row_messageId r = clean \<or> row_messageId r = ''<'' @ clean @ ''>''
                        \<or> row_messageId r = cm_messageId c)
      in case find hit (emailImports db) of
           None \<Rightarrow> (db, updated, notFound + 1)
         | Some emailImport \<Rightarrow>
             (db\<lparr>emailImports :=
                   map (\<lambda>r. if row_messageId r = row_messageId emailImport
                              then r\<lparr>row_classification := cm_correctedType c\<rparr> else r)
                       (emailImports db)\<rparr>,
              updated + 1, notFound))"

definition handlePatch :: "correctionMsg list \<Rightarrow> database \<Rightarrow> database \<times> nat \<times> nat" where
  "handlePatch corrections db = foldl patchOne (db, 0, 0) corrections"

subsection \<open>The methods of the endpoint\<close>

text \<open>
  The route module exports the handlers \<open>POST\<close>, \<open>PATCH\<close> and \<open>GET\<close>, and no other.
  The framework answers a request whose method has no exported handler with status 405 and
  does not run any code of the module.
\<close>

datatype httpMethod = GET | POST | PATCH | PUT | DELETE

definition routeExports :: "httpMethod list" where
  "routeExports = [POST, PATCH, GET]"

datatype request =
    PostImports "preClassifiedImport list"
  | PatchCorrections "correctionMsg list"
  | GetCounts
  | DeleteByMessageId string
  | PutAny

fun methodOf :: "request \<Rightarrow> httpMethod" where
  "methodOf (PostImports imports) = POST"
| "methodOf (PatchCorrections corrections) = PATCH"
| "methodOf GetCounts = GET"
| "methodOf (DeleteByMessageId mid) = DELETE"
| "methodOf PutAny = PUT"

text \<open>
  The endpoint for an authorised request: the new store and the response, of which the
  status and the field \<open>deleted\<close> of the body are kept (no handler of the module sets
  that field). \<open>PostImports\<close> is a \<open>POST\<close> whose body carries a non-empty
  \<open>imports\<close> array (without one the handler runs local mode, see
  \<open>handleLocalMode\<close>).
\<close>

record response =
  status :: nat
  deleted :: "nat option"

definition endpoint ::
  "string list \<Rightarrow> string \<Rightarrow> request \<Rightarrow> database \<Rightarrow> database \<times> response" where
  "endpoint monitored userId req db =
     (if methodOf req \<notin> set routeExports then (db, \<lparr>status = 405, deleted = None\<rparr>)
      else case req of
             PostImports imports \<Rightarrow>
               (fst (handlePreClassifiedImports monitored userId imports db),
                \<lparr>status = 200, deleted = None\<rparr>)
           | PatchCorrections corrections \<Rightarrow>
               (fst (handlePatch corrections db), \<lparr>status = 200, deleted = None\<rparr>)
           | GetCounts \<Rightarrow> (db, \<lparr>status = 200, deleted = None\<rparr>)
           | DeleteByMessageId mid \<Rightarrow> (db, \<lparr>status = 405, deleted = None\<rparr>)
           | PutAny \<Rightarrow> (db, \<lparr>status = 405, deleted = None\<rparr>))"

section \<open>The local agent (scripts/jobsync-local-sync.js)\<close>

text \<open>
  The parser of the local agent takes the messageId from the \<open>Message-ID\<close> header;
  without one it builds \<open>generated-${Date.now()}-${Math.random()}\<close>. The clock is a
  number of milliseconds, rendered in decimal; the random number enters the model as the
  string it is rendered to.
\<close>

definition digitChar :: "nat \<Rightarrow> char" where
  "digitChar d = ''0123456789'' ! d"

function showNat :: "nat \<Rightarrow> string" where
  "showNat n = (if n < 10 then [digitChar n] else showNat (n div 10) @ [digitChar (n mod 10)])"
  by pat_completeness auto
termination
  by (relation "measure id") auto

declare showNat.simps [simp del]

definition generatedMessageId :: "nat \<Rightarrow> string \<Rightarrow> string" where
  "generatedMessageId now random = ''generated-'' @ showNat now @ ''-'' @ random"

text \<open>\<open>parsed.messageId || `generated-...`\<close>, for the header as the mail parser read it.\<close>

definition localMessageId :: "jsval \<Rightarrow> nat \<Rightarrow> string \<Rightarrow> string" where
  "localMessageId header now random =
     (if truthy header then toStr header else generatedMessageId now random)"



section \<open>The correction scanner (scripts/jobsync-scan-corrections.js)\<close>

definition MAX_HIGH_VARIANCE_CORRECTIONS :: nat where
  "MAX_HIGH_VARIANCE_CORRECTIONS = 50"

record correction =
  corr_messageId :: string
  corr_originalType :: string
  corr_correctedType :: string
  corr_subject :: string
  corr_from :: string
  corr_fromName :: jsval
  corr_to :: string
  corr_isOutbound :: bool
  corr_bodyPreview :: string
  corr_highVariance :: bool

text \<open>
  What \<open>parseEmailForCorrection\<close> returns, and the view of it that the rule engine
  reads (\<open>subject\<close>, \<open>from\<close>, \<open>fromName\<close> and \<open>textBody\<close>).
\<close>

record emailData =
  ed_messageId :: string
  ed_subject :: string
  ed_from :: string
  ed_fromName :: jsval
  ed_to :: string
  ed_isOutbound :: bool
  ed_bodyPreview :: string
  ed_textBody :: string
  ed_htmlBody :: jsval

definition asEmail :: "emailData \<Rightarrow> email" where
  "asEmail d =
     \<lparr>subject = Str (ed_subject d), fromAddr = Str (ed_from d), fromEmail = Undefined,
      fromName = ed_fromName d, textBody = Str (ed_textBody d), bodyText = Undefined\<rparr>"

text \<open>
  A candidate found by \<open>findCorrectedEmails\<close>, with what the lookups of the loop
  return for it: the current \<open>jobsync/*\<close> tags (prefix removed), all tags of the
  message, the first file of the message, and the parsed file.
\<close>

record candidate =
  cand_messageId :: string
  cand_originalType :: "string option"
  cand_source :: string
  cand_currentTags :: "string list"
  cand_allTags :: "string list outcome"
  cand_filePath :: "string outcome"
  cand_emailData :: "emailData option"

record detected =
  det_messageId :: string
  det_origType :: string
  det_correctedType :: string
  det_emailData :: emailData

text \<open>
  The first half of the loop body: every \<open>continue\<close> is a \<open>None\<close>. What is left
  is a correction whose original and corrected type are known and differ, with its file
  parsed.
\<close>

definition originalTypeOf :: "candidate \<Rightarrow> string option" where
  "originalTypeOf c =
     (case cand_originalType c of
        Some t \<Rightarrow> Some t
      | None \<Rightarrow>
          if cand_source c = ''explicit''
          then (case cand_allTags c of
                  Throws err \<Rightarrow> None
                | Returns tags \<Rightarrow>
                    map_option (drop (length ''jobsync-was/''))
                      (find (\<lambda>t. startsWith t ''jobsync-was/'') tags))
          else None)"

definition resolve :: "candidate \<Rightarrow> detected option" where
  "resolve c =
     (if cand_currentTags c = [] then None
      else case find (\<lambda>t. t \<in> set CLASSIFICATION_TYPES) (cand_currentTags c) of
             None \<Rightarrow> None
           | Some correctedType \<Rightarrow>
               (case originalTypeOf c of
                  None \<Rightarrow> None
                | Some origType \<Rightarrow>
                    if origType = [] \<or> origType = correctedType then None
                    else (case cand_filePath c of
                            Throws err \<Rightarrow> None
                          | Returns path \<Rightarrow>
                              if path = [] then None
                              else (case cand_emailData c of
                                      None \<Rightarrow> None
                                    | Some emailData \<Rightarrow>
                                        Some \<lparr>det_messageId = cand_messageId c,
                                              det_origType = origType,
                                              det_correctedType = correctedType,
                                              det_emailData = emailData\<rparr>))))"

record scanState =
  pool :: "correction list"
  correctionsList :: "correction list"
  newImportsList :: "preClassifiedImport list"
  deleteList :: "(string \<times> string) list"
  newCorrections :: nat

text \<open>The correction record, and the import that a promotion sends.\<close>

definition correctionRecord :: "detected \<Rightarrow> bool \<Rightarrow> correction" where
  "correctionRecord d highVariance =
     \<lparr>corr_messageId = det_messageId d,
      corr_originalType = det_origType d,
      corr_correctedType = det_correctedType d,
      corr_subject = ed_subject (det_emailData d),
      corr_from = ed_from (det_emailData d),
      corr_fromName = ed_fromName (det_emailData d),
      corr_to = ed_to (det_emailData d),
      corr_isOutbound = ed_isOutbound (det_emailData d),
      corr_bodyPreview = ed_bodyPreview (det_emailData d),
      corr_highVariance = highVariance\<rparr>"

definition promotionImport :: "detected \<Rightarrow> preClassifiedImport" where
  "promotionImport d =
     \<lparr>imp_messageId = ed_messageId (det_emailData d),
      imp_subject = ed_subject (det_emailData d),
      imp_fromEmail = ed_from (det_emailData d),
      imp_fromName = ed_fromName (det_emailData d),
      imp_toEmail = ed_to (det_emailData d),
      imp_emailDate = [],
      imp_bodyText = Str (take 10000 (ed_textBody (det_emailData d))),
      imp_bodyHtml = Str (take 50000 (orEmpty (ed_htmlBody (det_emailData d)))),
      imp_classification = det_correctedType d,
      imp_confidence = 1.0,
      imp_isOutbound = ed_isOutbound (det_emailData d),
      imp_extractedData = Some []\<rparr>"

text \<open>The second half of the loop body: the routing of a correction.\<close>

definition scanOne :: "scanState \<Rightarrow> detected \<Rightarrow> scanState" where
  "scanOne st d =
     (let origType = det_origType d;
          correctedType = det_correctedType d;
          highVariance =
            isHighVarianceCorrection (asEmail (det_emailData d)) origType correctedType;
          correction = correctionRecord d highVariance;
          st1 = st\<lparr>newCorrections := newCorrections st + 1\<rparr>;
          st2 =
            (if origType = ''other'' \<and> correctedType \<noteq> ''other''
             then st1\<lparr>newImportsList := newImportsList st1 @ [promotionImport d]\<rparr>
             else if correctedType = ''other'' \<and> origType \<noteq> ''other''
             then st1\<lparr>deleteList := deleteList st1
                        @ [(det_messageId d, ed_subject (det_emailData d))]\<rparr>
             else if origType \<noteq> ''other'' \<and> correctedType \<noteq> ''other''
             then st1\<lparr>correctionsList := correctionsList st1 @ [correction]\<rparr>
             else st1)
      in if highVariance then st2\<lparr>pool := pool st2 @ [correction]\<rparr> else st2)"

text \<open>After the loop the pool keeps its most recent entries: \<open>slice(-50)\<close>.\<close>

definition truncatePool :: "correction list \<Rightarrow> correction list" where
  "truncatePool cs =
     (if length cs > MAX_HIGH_VARIANCE_CORRECTIONS
      then drop (length cs - MAX_HIGH_VARIANCE_CORRECTIONS) cs else cs)"

definition scanStep :: "scanState \<Rightarrow> candidate \<Rightarrow> scanState" where
  "scanStep st c = (case resolve c of None \<Rightarrow> st | Some d \<Rightarrow> scanOne st d)"

definition scan :: "correction list \<Rightarrow> candidate list \<Rightarrow> scanState" where
  "scan existing cs =
     (let st = foldl scanStep
                 \<lparr>pool = existing, correctionsList = [], newImportsList = [],
                  deleteList = [], newCorrections = 0\<rparr> cs
      in st\<lparr>pool := truncatePool (pool st)\<rparr>)"



definition deleteOne ::
  "string list \<Rightarrow> string \<Rightarrow> database \<times> nat \<times> nat \<Rightarrow> string \<times> string
     \<Rightarrow> database \<times> nat \<times> nat" where
  "deleteOne monitored userId st item =
     (let db = fst st; nDeleted = fst (snd st); notFound = snd (snd st);
          reply = endpoint monitored userId
                    (DeleteByMessageId (cleanMessageId (fst item))) db
      in if \<not> ok (status (snd reply)) then (fst reply, nDeleted, notFound + 1)
         else (case deleted (snd reply) of
                 Some n \<Rightarrow> if n > 0 then (fst reply, nDeleted + 1, notFound)
                           else (fst reply, nDeleted, notFound + 1)
               | None \<Rightarrow> (fst reply, nDeleted, notFound + 1)))"

definition deleteFromServer ::
  "string list \<Rightarrow> string \<Rightarrow> (string \<times> string) list \<Rightarrow> database \<Rightarrow> database \<times> nat \<times> nat" where
  "deleteFromServer monitored userId items db =
     foldl (deleteOne monitored userId) (db, 0, 0) items"


section \<open>Auxiliary notions and sample data\<close>

text \<open>
  The notions in which the properties below are stated, and the concrete messages,
  stores and replies at which they are instantiated.
\<close>

text \<open>
  Messages for the rule engine: one from a job-alert sender (the first rule of \<open>other\<close>)
  with the subject of a phone screen (the second rule of \<open>interview\<close>), and one
  without any field.
\<close>

definition alertAndScreen :: email where
  "alertAndScreen =
     \<lparr>subject = Str ''Phone Screen'', fromAddr = Str ''JobNotification@example.com'',
      fromEmail = Undefined, fromName = Undefined, textBody = Undefined,
      bodyText = Undefined\<rparr>"


text \<open>The messageIds of the stored records, in the order of the table.\<close>

definition messageIds :: "database \<Rightarrow> string list" where
  "messageIds db = map row_messageId (emailImports db)"


definition defaultMonitored :: "string list" where
  "defaultMonitored = [''j@abaj.ai'', ''aayushbajaj7@gmail.com'']"

definition invitation :: preClassifiedImport where
  "invitation =
     \<lparr>imp_messageId = ''<m1@acme.example>'', imp_subject = ''Interview invitation'',
      imp_fromEmail = ''hr@acme.example'', imp_fromName = Str ''Acme HR'',
      imp_toEmail = ''j@abaj.ai'', imp_emailDate = ''2025-01-01T00:00:00.000Z'',
      imp_bodyText = Str ''Please pick a time.'', imp_bodyHtml = Str [],
      imp_classification = ''interview'', imp_confidence = 0.9, imp_isOutbound = False,
      imp_extractedData = None\<rparr>"

definition monitoredAccount :: emailAccount where
  "monitoredAccount = \<lparr>acc_userId = ''u1'', acc_email = ''j@abaj.ai'', acc_isActive = True\<rparr>"

text \<open>
  The same invitation as the server's parser and the local agent see it, classified
  \<open>interview\<close> with a given confidence by the server's model and by Ollama, and the
  states in which nothing has been processed yet.
\<close>

definition storeWithAccount :: database where
  "storeWithAccount = \<lparr>emailImports = [], emailAccounts = [monitoredAccount]\<rparr>"







text \<open>
  Samples for the scanner. A message from a job-alert sender, once classified
  \<open>interview\<close> and staged, which the user retagged \<open>other\<close>: a demotion, and one the
  rule engine would have caught (the first rule of \<open>other\<close> fires). And a message on
  which no rule fires, retagged from \<open>rejection\<close> to \<open>interview\<close>.
\<close>

definition alertData :: emailData where
  "alertData =
     \<lparr>ed_messageId = ''<m1@acme.example>'', ed_subject = ''Phone Screen'',
      ed_from = ''JobNotification@example.com'', ed_fromName = Undefined,
      ed_to = ''j@abaj.ai'', ed_isOutbound = False, ed_bodyPreview = ''New jobs'',
      ed_textBody = ''New jobs'', ed_htmlBody = Undefined\<rparr>"

definition demotion :: candidate where
  "demotion =
     \<lparr>cand_messageId = ''m1@acme.example'', cand_originalType = Some ''interview'',
      cand_source = ''was-tag'', cand_currentTags = [''other''],
      cand_allTags = Returns [''jobsync/other'', ''jobsync-was/interview''],
      cand_filePath = Returns ''/mail/cur/1'', cand_emailData = Some alertData\<rparr>"

definition demotionDetected :: detected where
  "demotionDetected =
     \<lparr>det_messageId = ''m1@acme.example'', det_origType = ''interview'',
      det_correctedType = ''other'', det_emailData = alertData\<rparr>"




definition stagedRow :: "string \<Rightarrow> string \<Rightarrow> emailImport" where
  "stagedRow mid ty =
     \<lparr>row_userId = ''u1'', row_emailAccountId = ''j@abaj.ai'', row_messageId = mid,
      row_subject = ''Phone Screen'', row_fromEmail = ''JobNotification@example.com'',
      row_fromName = Null, row_toEmail = ''j@abaj.ai'', row_bodyText = Str ''New jobs'',
      row_bodyHtml = Null, row_classification = ty, row_confidence = 0.9,
      row_isOutbound = False, row_extractedData = None, row_status = ''pending''\<rparr>"

definition stagedStore :: database where
  "stagedStore =
     \<lparr>emailImports = [stagedRow ''<m1@acme.example>'' ''interview'',
                       stagedRow ''<m2@acme.example>'' ''rejection''],
      emailAccounts = [monitoredAccount]\<rparr>"





section \<open>Properties of the rule engine\<close>

lemma firstRule_None_iff: "firstRule e rs = None \<longleftrightarrow> (\<forall>r \<in> set rs. \<not> fires e r)"
  by (induction rs) (auto simp: fires_def split: option.splits)




lemma classifyIn_Some_nth:
  assumes "classifyIn tbl e tys = Some res"
  shows "\<exists>i < length tys. \<exists>r. firstRule e (rulesFor tbl (tys ! i)) = Some r
           \<and> res = \<lparr>ctype = tys ! i, confidence = 0.95, ruleReason = reason r, ruleMatched = True\<rparr>
           \<and> (\<forall>i' < i. firstRule e (rulesFor tbl (tys ! i')) = None)"
  using assms
proof (induction tys)
  case Nil
  then show ?case by simp
next
  case (Cons ty tys)
  show ?case
  proof (cases "firstRule e (rulesFor tbl ty)")
    case (Some r)
    with Cons.prems
    have "res = \<lparr>ctype = ty, confidence = 0.95, ruleReason = reason r, ruleMatched = True\<rparr>"
      by simp
    with Some show ?thesis by (intro exI[of _ 0]) simp
  next
    case None
    with Cons.prems have "classifyIn tbl e tys = Some res" by simp
    from Cons.IH[OF this] obtain i r where i: "i < length tys"
      "firstRule e (rulesFor tbl (tys ! i)) = Some r"
      "res = \<lparr>ctype = tys ! i, confidence = 0.95, ruleReason = reason r, ruleMatched = True\<rparr>"
      "\<forall>i' < i. firstRule e (rulesFor tbl (tys ! i')) = None" by blast
    have "\<forall>i' < Suc i. firstRule e (rulesFor tbl ((ty # tys) ! i')) = None"
    proof (intro allI impI)
      fix i' assume "i' < Suc i"
      then show "firstRule e (rulesFor tbl ((ty # tys) ! i')) = None"
        using None i(4) by (cases i') auto
    qed
    with i show ?thesis by (intro exI[of _ "Suc i"]) auto
  qed
qed

lemma classifyIn_head:
  "firstRule e (rulesFor tbl ty) = Some r \<Longrightarrow>
   classifyIn tbl e (ty # tys)
     = Some \<lparr>ctype = ty, confidence = 0.95, ruleReason = reason r, ruleMatched = True\<rparr>"
  by simp

lemma rulesFor_table:
  "rulesFor CLASSIFICATION_RULES ''other'' = rules_other"
  "rulesFor CLASSIFICATION_RULES ''interview'' = rules_interview"
  "rulesFor CLASSIFICATION_RULES ''rejection'' = rules_rejection"
  "rulesFor CLASSIFICATION_RULES ''job_response'' = rules_job_response"
  "rulesFor CLASSIFICATION_RULES ''follow_up'' = rules_follow_up"
  "rulesFor CLASSIFICATION_RULES ''job_application'' = []"
  "rulesFor CLASSIFICATION_RULES ''offer'' = []"
  by (simp_all add: rulesFor_def CLASSIFICATION_RULES_def)

lemma classifyByRules_ctype:
  "classifyByRules e = Some res \<Longrightarrow> ctype res \<in> set checkOrder \<and> confidence res = 0.95"
  unfolding classifyByRules_def
  by (drule classifyIn_Some_nth) auto

lemma alertAndScreen_other: "fires alertAndScreen (rules_other ! 0)"
  by (simp add: rules_other_def fires_def alertAndScreen_def) code_simp





text \<open>
  Claim C9. The rule engine never answers \<open>job_application\<close> or \<open>offer\<close>: the table
  has rules for the labels other, job_response, interview, rejection and follow_up only,
  the order of evaluation holds those five labels only, and every result carries one of
  them.
\<close>

theorem classifyByRules_never_application_or_offer:
  "(\<forall>res. classifyByRules e = Some res \<longrightarrow>
       ctype res \<in> {''other'', ''job_response'', ''interview'', ''rejection'', ''follow_up''}
       \<and> ctype res \<noteq> ''job_application'' \<and> ctype res \<noteq> ''offer'')
   \<and> map fst CLASSIFICATION_RULES
       = [''other'', ''job_response'', ''interview'', ''rejection'', ''follow_up'']
   \<and> set checkOrder = {''other'', ''job_response'', ''interview'', ''rejection'', ''follow_up''}
   \<and> rulesFor CLASSIFICATION_RULES ''job_application'' = []
   \<and> rulesFor CLASSIFICATION_RULES ''offer'' = []"
proof (intro conjI allI impI)
  fix res assume "classifyByRules e = Some res"
  then have "ctype res \<in> set checkOrder" by (simp add: classifyByRules_ctype)
  then show "ctype res \<in> {''other'', ''job_response'', ''interview'', ''rejection'', ''follow_up''}"
    and "ctype res \<noteq> ''job_application''" and "ctype res \<noteq> ''offer''"
    by (auto simp: checkOrder_def)
next
  show "map fst CLASSIFICATION_RULES
       = [''other'', ''job_response'', ''interview'', ''rejection'', ''follow_up'']"
    by (simp add: CLASSIFICATION_RULES_def)
  show "set checkOrder = {''other'', ''job_response'', ''interview'', ''rejection'', ''follow_up''}"
    by (auto simp: checkOrder_def)
qed (simp_all add: rulesFor_table)

text \<open>The job-alert message is classified, and neither as an application nor as an offer.\<close>

theorem classifyByRules_never_application_or_offer_witness:
  "\<exists>res. classifyByRules alertAndScreen = Some res
      \<and> ctype res \<noteq> ''job_application'' \<and> ctype res \<noteq> ''offer''"
proof -
  have "firstRule alertAndScreen rules_other \<noteq> None"
    using alertAndScreen_other firstRule_None_iff[of alertAndScreen rules_other]
    by (auto simp: rules_other_def)
  then obtain res where "classifyByRules alertAndScreen = Some res"
    by (auto simp: classifyByRules_def checkOrder_def rulesFor_table)
  with classifyByRules_never_application_or_offer[of alertAndScreen] show ?thesis
    by blast
qed

section \<open>Properties of the merge of extracted data\<close>

lemma getProp_setProp: "getProp (setProp ob k v) k' = (if k' = k then v else getProp ob k')"
  by (induction ob) (auto simp: getProp_def)

lemma mergeKeys_getProp:
  "getProp (mergeKeys result newData keys) k =
     (if k \<in> set keys \<and> truthy (getProp newData k) \<and> \<not> truthy (getProp result k)
      then getProp newData k else getProp result k)"
proof (induction keys arbitrary: result)
  case Nil
  then show ?case by simp
next
  case (Cons key keys)
  show ?case
    by (auto simp: Cons.IH getProp_setProp)
qed

lemma truthy_getProp_key:
  assumes "truthy (getProp ob k)"
  shows "k \<in> fst ` set ob"
proof -
  from assms have "map_of ob k \<noteq> None"
    by (auto simp: getProp_def split: option.splits)
  then show ?thesis by (simp add: map_of_eq_None_iff)
qed

text \<open>
  Claim C6, where it fails. The claim counts a value as present when it is not
  \<open>null\<close>; the code tests truthiness, and the empty string is not truthy. An existing
  company \<open>""\<close> (which the value cleaner returns for a capture such as \<open>"Ltd"\<close>) is
  replaced by the new one.
\<close>

theorem mergeExtractedData_replaces_empty_string:
  "getProp [(''company'', Str '''')] ''company'' \<noteq> Null
   \<and> getProp [(''company'', Str '''')] ''company'' \<noteq> Undefined
   \<and> getProp (mergeExtractedData [(''company'', Str '''')] [(''company'', Str ''Other'')])
        ''company'' = Str ''Other''"
  by (simp add: mergeExtractedData_def getProp_def)

text \<open>
  Claim C6, amended. The merge only fills: for every pair of objects and every field, the
  merged value is the existing one when that is truthy (neither \<open>undefined\<close> nor
  \<open>null\<close> nor the empty string); otherwise it is the new value when that is truthy, and
  the existing value when neither is. In particular
  \<open>merge({company: "Acme"}, {company: "Other", jobTitle: "Eng"})\<close> is
  \<open>{company: "Acme", jobTitle: "Eng"}\<close>.
\<close>

theorem mergeExtractedData_fill_only:
  "getProp (mergeExtractedData existing newData) k =
     (if truthy (getProp existing k) then getProp existing k
      else if truthy (getProp newData k) then getProp newData k
      else getProp existing k)
   \<and> mergeExtractedData [(''company'', Str ''Acme'')]
        [(''company'', Str ''Other''), (''jobTitle'', Str ''Eng'')]
      = [(''company'', Str ''Acme''), (''jobTitle'', Str ''Eng'')]"
proof
  show "getProp (mergeExtractedData existing newData) k =
     (if truthy (getProp existing k) then getProp existing k
      else if truthy (getProp newData k) then getProp newData k
      else getProp existing k)"
    using truthy_getProp_key[of newData k]
    by (auto simp: mergeExtractedData_def mergeKeys_getProp)
  show "mergeExtractedData [(''company'', Str ''Acme'')]
        [(''company'', Str ''Other''), (''jobTitle'', Str ''Eng'')]
      = [(''company'', Str ''Acme''), (''jobTitle'', Str ''Eng'')]"
    by (simp add: mergeExtractedData_def getProp_def)
qed

text \<open>An existing company is kept, and a location that was \<open>null\<close> is filled.\<close>

theorem mergeExtractedData_fill_only_witness:
  "getProp (mergeExtractedData [(''company'', Str ''Acme''), (''location'', Null)]
              [(''company'', Str ''Other''), (''location'', Str ''Sydney'')]) ''company''
     = Str ''Acme''
   \<and> getProp (mergeExtractedData [(''company'', Str ''Acme''), (''location'', Null)]
              [(''company'', Str ''Other''), (''location'', Str ''Sydney'')]) ''location''
     = Str ''Sydney''"
  using mergeExtractedData_fill_only
          [of "[(''company'', Str ''Acme''), (''location'', Null)]"
              "[(''company'', Str ''Other''), (''location'', Str ''Sydney'')]" "''company''"]
        mergeExtractedData_fill_only
          [of "[(''company'', Str ''Acme''), (''location'', Null)]"
              "[(''company'', Str ''Other''), (''location'', Str ''Sydney'')]" "''location''"]
  by (simp add: getProp_def)

section \<open>Properties of the staging protocol\<close>

lemma findUnique_None_iff: "findUnique db mid = None \<longleftrightarrow> mid \<notin> set (messageIds db)"
  by (auto simp: findUnique_def messageIds_def find_None_iff)

lemma upsertAccount_imports: "emailImports (upsertAccount userId addr db) = emailImports db"
  by (simp add: upsertAccount_def)

lemma foldl_upsert_imports:
  "emailImports (foldl (\<lambda>d addr. if P addr then upsertAccount userId addr d else d) db addrs)
     = emailImports db"
  by (induction addrs arbitrary: db) (simp_all add: upsertAccount_imports)

lemma ensureAccounts_imports:
  "emailImports (ensureAccounts monitored userId imports db) = emailImports db"
  by (simp add: ensureAccounts_def foldl_upsert_imports)

lemma createImport_Returns:
  assumes "createImport db row = Returns db'"
  shows "row_messageId row \<notin> set (messageIds db)
     \<and> db' = db\<lparr>emailImports := emailImports db @ [row]\<rparr>"
proof -
  from assms have no: "\<not> (\<exists>r \<in> set (emailImports db). row_messageId r = row_messageId row)"
    and eq: "db' = db\<lparr>emailImports := emailImports db @ [row]\<rparr>"
    by (auto simp: createImport_def split: if_splits)
  from no have "row_messageId row \<notin> set (messageIds db)"
    unfolding messageIds_def by auto
  with eq show ?thesis by simp
qed

lemma createImport_fresh:
  "row_messageId row \<notin> set (messageIds db) \<Longrightarrow>
     createImport db row = Returns (db\<lparr>emailImports := emailImports db @ [row]\<rparr>)"
proof -
  assume "row_messageId row \<notin> set (messageIds db)"
  then have "\<not> (\<exists>r \<in> set (emailImports db). row_messageId r = row_messageId row)"
    unfolding messageIds_def by (metis image_eqI set_map)
  then show ?thesis by (simp add: createImport_def)
qed



lemma importOne_fresh:
  assumes "imp_messageId imp \<notin> set (messageIds db)"
    and "findActiveAccount monitored db = Some account"
  shows "importOne monitored userId (db, res) imp =
           (db\<lparr>emailImports := emailImports db @ [importRow userId account imp]\<rparr>,
            res\<lparr>processed := processed res + 1\<rparr>)"
proof -
  from assms(1) have "findUnique db (imp_messageId imp) = None"
    by (simp add: findUnique_None_iff)
  moreover from assms(1)
  have "createImport db (importRow userId account imp)
          = Returns (db\<lparr>emailImports := emailImports db @ [importRow userId account imp]\<rparr>)"
    by (intro createImport_fresh) (simp add: importRow_def)
  ultimately show ?thesis using assms(2) by (simp add: importOne_def)
qed







lemma handlePreClassifiedImports_single:
  "handlePreClassifiedImports monitored userId [imp] db =
     importOne monitored userId
       (ensureAccounts monitored userId [imp] db, \<lparr>processed = 0, skipped = 0, errors = []\<rparr>) imp"
  by (simp add: handlePreClassifiedImports_def)






section \<open>The confidence gate\<close>

lemma find_append_Some: "find P xs = Some x \<Longrightarrow> find P (xs @ ys) = Some x"
  by (induction xs) (auto split: if_splits)

lemma upsertAccount_accounts:
  "\<exists>extra. emailAccounts (upsertAccount userId addr db) = emailAccounts db @ extra"
  by (simp add: upsertAccount_def)

lemma foldl_upsert_accounts:
  "\<exists>extra. emailAccounts
              (foldl (\<lambda>d addr. if P addr then upsertAccount userId addr d else d) db addrs)
            = emailAccounts db @ extra"
proof (induction addrs arbitrary: db)
  case Nil
  then show ?case by simp
next
  case (Cons a addrs)
  let ?d = "if P a then upsertAccount userId a db else db"
  have "\<exists>e1. emailAccounts ?d = emailAccounts db @ e1"
    using upsertAccount_accounts[of userId a db] by simp
  then obtain e1 where e1: "emailAccounts ?d = emailAccounts db @ e1" ..
  from Cons.IH[of ?d] obtain e2 where
    "emailAccounts (foldl (\<lambda>d addr. if P addr then upsertAccount userId addr d else d) ?d addrs)
       = emailAccounts ?d @ e2" by blast
  with e1 show ?case by simp
qed

lemma findActiveAccount_ensureAccounts:
  assumes "findActiveAccount monitored db = Some account"
  shows "findActiveAccount monitored (ensureAccounts monitored userId batch db) = Some account"
proof -
  obtain extra where
    "emailAccounts (ensureAccounts monitored userId batch db) = emailAccounts db @ extra"
    unfolding ensureAccounts_def
    using foldl_upsert_accounts[of "\<lambda>addr. addr \<in> set monitored" userId db "uniqueEmails batch"]
    by blast
  with assms show ?thesis
    by (simp add: findActiveAccount_def find_append_Some)
qed







section \<open>Properties of the correction scanner\<close>

lemma isHighVarianceCorrection_iff:
  "isHighVarianceCorrection e originalType correctedType \<longleftrightarrow> classifyByRules e = None"
  by (simp add: isHighVarianceCorrection_def split: option.splits)

lemma scanOne_routing:
  "pool (scanOne st d) =
     (if classifyByRules (asEmail (det_emailData d)) = None
      then pool st @ [correctionRecord d True] else pool st)"
  "correctionsList (scanOne st d) =
     (if det_origType d \<noteq> ''other'' \<and> det_correctedType d \<noteq> ''other''
      then correctionsList st
           @ [correctionRecord d (classifyByRules (asEmail (det_emailData d)) = None)]
      else correctionsList st)"
  "newImportsList (scanOne st d) =
     (if det_origType d = ''other'' \<and> det_correctedType d \<noteq> ''other''
      then newImportsList st @ [promotionImport d] else newImportsList st)"
  "deleteList (scanOne st d) =
     (if det_correctedType d = ''other'' \<and> det_origType d \<noteq> ''other''
      then deleteList st @ [(det_messageId d, ed_subject (det_emailData d))]
      else deleteList st)"
  by (auto simp: scanOne_def Let_def isHighVarianceCorrection_iff)

lemma foldl_deleteOne:
  "foldl (deleteOne monitored userId) (db, n, k) items = (db, n, k + length items)"
proof (induction items arbitrary: k)
  case Nil
  then show ?case by simp
next
  case (Cons item items)
  have "deleteOne monitored userId (db, n, k) item = (db, n, k + 1)"
    by (simp add: deleteOne_def endpoint_def routeExports_def ok_def)
  with Cons.IH[of "k + 1"] show ?case by simp
qed

lemma deleteFromServer_all_not_found:
  "deleteFromServer monitored userId items db = (db, 0, length items)"
  by (simp add: deleteFromServer_def foldl_deleteOne)

lemma demotion_resolved: "resolve demotion = Some demotionDetected"
  by (simp add: resolve_def demotion_def demotionDetected_def originalTypeOf_def
        CLASSIFICATION_TYPES_def)




text \<open>
  Claim C5, on the code. The scanner routes a demotion to \<open>deleteFromServer\<close>, which
  sends one \<open>DELETE\<close> request per message. The endpoint exports no handler for
  \<open>DELETE\<close>, so every such request is answered 405: whatever the demotions and the
  store, nothing is deleted, and each demotion is counted as not found.
\<close>

theorem demotion_delete_has_no_handler:
  "DELETE \<notin> set routeExports
   \<and> deleteFromServer monitored userId items db = (db, 0, length items)"
  by (simp add: routeExports_def deleteFromServer_all_not_found)

text \<open>
  The staged interview record of the demoted message is still stored, with its
  classification, after the scanner has delivered the demotion.
\<close>

theorem demotion_delete_has_no_handler_witness:
  "deleteList (scan [] [demotion]) = [(''m1@acme.example'', ''Phone Screen'')]
   \<and> deleteFromServer defaultMonitored ''u1'' (deleteList (scan [] [demotion])) stagedStore
       = (stagedStore, 0, 1)
   \<and> stagedRow ''<m1@acme.example>'' ''interview'' \<in> set (emailImports stagedStore)"
proof -
  have "deleteList (scan [] [demotion]) = [(''m1@acme.example'', ''Phone Screen'')]"
    by (simp add: scan_def scanStep_def demotion_resolved scanOne_routing Let_def
          demotionDetected_def alertData_def)
  moreover have "stagedRow ''<m1@acme.example>'' ''interview'' \<in> set (emailImports stagedStore)"
    by (simp add: stagedStore_def)
  ultimately show ?thesis
    using demotion_delete_has_no_handler
            [of defaultMonitored "''u1''" "[(''m1@acme.example'', ''Phone Screen'')]" stagedStore]
    by simp
qed




section \<open>Properties of the LLM classifiers\<close>






section \<open>The generated messageId\<close>

lemma digitChar_not_dash: "d < 10 \<Longrightarrow> digitChar d \<noteq> CHR ''-''"
proof -
  assume "d < 10"
  then have "d \<in> {0, 1, 2, 3, 4, 5, 6, 7, 8, 9}" by auto
  then show ?thesis by (auto simp: digitChar_def)
qed

lemma digitChar_inj: "a < 10 \<Longrightarrow> b < 10 \<Longrightarrow> digitChar a = digitChar b \<Longrightarrow> a = b"
proof -
  assume "a < 10" "b < 10" and eq: "digitChar a = digitChar b"
  then have "a \<in> {0, 1, 2, 3, 4, 5, 6, 7, 8, 9}" "b \<in> {0, 1, 2, 3, 4, 5, 6, 7, 8, 9}"
    by auto
  with eq show ?thesis by (auto simp: digitChar_def)
qed

lemma showNat_not_empty: "showNat n \<noteq> []"
  by (subst showNat.simps) simp

lemma showNat_no_dash: "CHR ''-'' \<notin> set (showNat n)"
proof (induction n rule: showNat.induct)
  case (1 n)
  show ?case
  proof (cases "n < 10")
    case True
    then show ?thesis
      using digitChar_not_dash[of n] by (subst showNat.simps) auto
  next
    case False
    with 1 show ?thesis
      using digitChar_not_dash[of "n mod 10"] by (subst showNat.simps) auto
  qed
qed

lemma showNat_inj: "showNat a = showNat b \<Longrightarrow> a = b"
proof (induction a arbitrary: b rule: showNat.induct)
  case (1 a)
  show ?case
  proof (cases "a < 10")
    case small_a: True
    show ?thesis
    proof (cases "b < 10")
      case True
      with small_a "1.prems" show ?thesis
        using digitChar_inj[of a b]
        by (simp add: showNat.simps[of a] showNat.simps[of b])
    next
      case False
      with small_a "1.prems" have "[digitChar a] = showNat (b div 10) @ [digitChar (b mod 10)]"
        by (simp add: showNat.simps[of a] showNat.simps[of b])
      then have "showNat (b div 10) = []" by simp
      then show ?thesis using showNat_not_empty by blast
    qed
  next
    case big_a: False
    show ?thesis
    proof (cases "b < 10")
      case True
      with big_a "1.prems" have "showNat (a div 10) @ [digitChar (a mod 10)] = [digitChar b]"
        by (simp add: showNat.simps[of a] showNat.simps[of b])
      then have "showNat (a div 10) = []" by simp
      then show ?thesis using showNat_not_empty by blast
    next
      case False
      with big_a "1.prems"
      have "showNat (a div 10) @ [digitChar (a mod 10)]
              = showNat (b div 10) @ [digitChar (b mod 10)]"
        by (simp add: showNat.simps[of a] showNat.simps[of b])
      then have q: "showNat (a div 10) = showNat (b div 10)"
        and r: "digitChar (a mod 10) = digitChar (b mod 10)"
        by simp_all
      from "1.IH"[OF big_a q] have "a div 10 = b div 10" .
      moreover from r have "a mod 10 = b mod 10"
        using digitChar_inj[of "a mod 10" "b mod 10"] by simp
      ultimately show ?thesis
        by (metis div_mult_mod_eq)
    qed
  qed
qed

lemma split_at_separator:
  assumes "c \<notin> set xs" "c \<notin> set ys" "xs @ c # r = ys @ c # s"
  shows "xs = ys \<and> r = s"
  using assms
proof (induction xs arbitrary: ys)
  case Nil
  then show ?case by (cases ys) auto
next
  case (Cons x xs)
  then show ?case by (cases ys) auto
qed

lemma generatedMessageId_inj:
  assumes "generatedMessageId now1 random1 = generatedMessageId now2 random2"
  shows "now1 = now2 \<and> random1 = random2"
proof -
  from assms have "showNat now1 @ CHR ''-'' # random1 = showNat now2 @ CHR ''-'' # random2"
    by (simp add: generatedMessageId_def)
  then have "showNat now1 = showNat now2 \<and> random1 = random2"
    using split_at_separator[OF showNat_no_dash showNat_no_dash] by blast
  then show ?thesis using showNat_inj by blast
qed

lemma handle_single_fresh:
  assumes "imp_messageId imp \<notin> set (messageIds db)"
    and "findActiveAccount monitored db = Some account"
  shows "\<exists>db'. handlePreClassifiedImports monitored userId [imp] db
                 = (db', \<lparr>processed = 1, skipped = 0, errors = []\<rparr>)
               \<and> emailImports db' = emailImports db @ [importRow userId account imp]
               \<and> findActiveAccount monitored db' = Some account"
proof -
  let ?e = "ensureAccounts monitored userId [imp] db"
  let ?zero = "\<lparr>processed = 0, skipped = 0, errors = []\<rparr>"
  from assms(2) have a: "findActiveAccount monitored ?e = Some account"
    by (rule findActiveAccount_ensureAccounts)
  from assms(1) have f: "imp_messageId imp \<notin> set (messageIds ?e)"
    by (simp add: messageIds_def ensureAccounts_imports)
  have "handlePreClassifiedImports monitored userId [imp] db
      = (?e\<lparr>emailImports := emailImports ?e @ [importRow userId account imp]\<rparr>,
         \<lparr>processed = 1, skipped = 0, errors = []\<rparr>)"
    using importOne_fresh[OF f a, of userId ?zero]
    by (simp add: handlePreClassifiedImports_single)
  moreover have "findActiveAccount monitored
      (?e\<lparr>emailImports := emailImports ?e @ [importRow userId account imp]\<rparr>) = Some account"
    using a by (simp add: findActiveAccount_def)
  ultimately show ?thesis
    by (simp add: ensureAccounts_imports)
qed

text \<open>
  Claim C10. Without a \<open>Message-ID\<close> header the parser of the local agent builds the
  messageId from the clock and a random number, so the messageId is not a function of the
  file: two parses of the same file that read a different clock or draw a different
  random number give different messageIds (with a header they give the same). The
  duplicate detection of the endpoint compares messageIds, so when such a message is
  delivered after each of two runs, both deliveries are stored, none is skipped.
\<close>

theorem generated_message_id_not_deduplicated:
  "(\<not> truthy header \<and> (now1, random1) \<noteq> (now2, random2) \<longrightarrow>
      localMessageId header now1 random1 \<noteq> localMessageId header now2 random2)
   \<and> (\<not> truthy header \<longrightarrow>
        localMessageId header now1 random1 = ''generated-'' @ showNat now1 @ ''-'' @ random1)
   \<and> (truthy header \<longrightarrow>
        localMessageId header now1 random1 = localMessageId header now2 random2)
   \<and> (\<not> truthy header \<and> (now1, random1) \<noteq> (now2, random2)
        \<and> findActiveAccount monitored db = Some account
        \<and> localMessageId header now1 random1 \<notin> set (messageIds db)
        \<and> localMessageId header now2 random2 \<notin> set (messageIds db) \<longrightarrow>
        (let first = handlePreClassifiedImports monitored userId
                       [imp\<lparr>imp_messageId := localMessageId header now1 random1\<rparr>] db;
             second = handlePreClassifiedImports monitored userId
                       [imp\<lparr>imp_messageId := localMessageId header now2 random2\<rparr>] (fst first)
         in processed (snd first) = 1 \<and> processed (snd second) = 1 \<and> skipped (snd second) = 0
            \<and> length (emailImports (fst second)) = length (emailImports db) + 2))"
proof (intro conjI impI)
  assume "\<not> truthy header \<and> (now1, random1) \<noteq> (now2, random2)"
  then show "localMessageId header now1 random1 \<noteq> localMessageId header now2 random2"
    using generatedMessageId_inj[of now1 random1 now2 random2]
    by (auto simp: localMessageId_def)
next
  assume "\<not> truthy header"
  then show "localMessageId header now1 random1 = ''generated-'' @ showNat now1 @ ''-'' @ random1"
    by (simp add: localMessageId_def generatedMessageId_def)
next
  assume "truthy header"
  then show "localMessageId header now1 random1 = localMessageId header now2 random2"
    by (simp add: localMessageId_def)
next
  let ?id1 = "localMessageId header now1 random1"
  let ?id2 = "localMessageId header now2 random2"
  let ?imp1 = "imp\<lparr>imp_messageId := ?id1\<rparr>"
  let ?imp2 = "imp\<lparr>imp_messageId := ?id2\<rparr>"
  let ?zero = "\<lparr>processed = 0, skipped = 0, errors = []\<rparr>"
  assume h: "\<not> truthy header \<and> (now1, random1) \<noteq> (now2, random2)
        \<and> findActiveAccount monitored db = Some account
        \<and> ?id1 \<notin> set (messageIds db) \<and> ?id2 \<notin> set (messageIds db)"
  then have ne: "?id1 \<noteq> ?id2"
    using generatedMessageId_inj[of now1 random1 now2 random2]
    by (auto simp: localMessageId_def)
  from h have "imp_messageId ?imp1 \<notin> set (messageIds db)"
    and acc: "findActiveAccount monitored db = Some account"
    by simp_all
  from handle_single_fresh[OF this, of userId] obtain db1 where
    first: "handlePreClassifiedImports monitored userId [?imp1] db
              = (db1, \<lparr>processed = 1, skipped = 0, errors = []\<rparr>)"
    and rows1: "emailImports db1 = emailImports db @ [importRow userId account ?imp1]"
    and acc1: "findActiveAccount monitored db1 = Some account"
    by blast
  from h ne rows1 have "imp_messageId ?imp2 \<notin> set (messageIds db1)"
    by (simp add: messageIds_def importRow_def)
  from handle_single_fresh[OF this acc1, of userId] obtain db2 where
    second: "handlePreClassifiedImports monitored userId [?imp2] db1
              = (db2, \<lparr>processed = 1, skipped = 0, errors = []\<rparr>)"
    and rows2: "emailImports db2 = emailImports db1 @ [importRow userId account ?imp2]"
    by blast
  show "let first = handlePreClassifiedImports monitored userId [?imp1] db;
            second = handlePreClassifiedImports monitored userId [?imp2] (fst first)
        in processed (snd first) = 1 \<and> processed (snd second) = 1 \<and> skipped (snd second) = 0
           \<and> length (emailImports (fst second)) = length (emailImports db) + 2"
    by (simp add: Let_def first second rows1 rows2)
qed

text \<open>
  A file without the header, parsed at the clock values 1700000000000 and 1700000000001
  with the same random number: the two messageIds differ, and both deliveries of the
  message are stored.
\<close>

theorem generated_message_id_not_deduplicated_witness:
  "\<not> truthy Undefined
   \<and> localMessageId Undefined 1700000000000 ''0.5'' = ''generated-1700000000000-0.5''
   \<and> localMessageId Undefined 1700000000000 ''0.5''
        \<noteq> localMessageId Undefined 1700000000001 ''0.5''
   \<and> (let first = handlePreClassifiedImports defaultMonitored ''u1''
                      [invitation\<lparr>imp_messageId :=
                          localMessageId Undefined 1700000000000 ''0.5''\<rparr>] storeWithAccount;
           second = handlePreClassifiedImports defaultMonitored ''u1''
                      [invitation\<lparr>imp_messageId :=
                          localMessageId Undefined 1700000000001 ''0.5''\<rparr>] (fst first)
       in processed (snd first) = 1 \<and> processed (snd second) = 1 \<and> skipped (snd second) = 0
          \<and> length (emailImports (fst second)) = length (emailImports storeWithAccount) + 2)"
proof -
  have n: "\<not> truthy Undefined" by simp
  have d: "((1700000000000::nat), ''0.5'') \<noteq> (1700000000001, ''0.5'')" by simp
  have account: "findActiveAccount defaultMonitored storeWithAccount = Some monitoredAccount"
    by (simp add: findActiveAccount_def storeWithAccount_def monitoredAccount_def
          defaultMonitored_def)
  have fresh: "localMessageId Undefined t r \<notin> set (messageIds storeWithAccount)" for t r
    by (simp add: messageIds_def storeWithAccount_def)
  have shown: "showNat 1700000000000 = ''1700000000000''"
    by (simp add: showNat.simps digitChar_def)
  note g = generated_message_id_not_deduplicated
             [of Undefined 1700000000000 "''0.5''" 1700000000001 "''0.5''" defaultMonitored
                 storeWithAccount monitoredAccount "''u1''" invitation]
  from g n d have "localMessageId Undefined 1700000000000 ''0.5''
        \<noteq> localMessageId Undefined 1700000000001 ''0.5''"
    by blast
  moreover from g n
  have "localMessageId Undefined 1700000000000 ''0.5'' = ''generated-1700000000000-0.5''"
    by (simp add: shown)
  moreover from g n d account fresh[of 1700000000000 "''0.5''"] fresh[of 1700000000001 "''0.5''"]
  have "let first = handlePreClassifiedImports defaultMonitored ''u1''
                      [invitation\<lparr>imp_messageId :=
                          localMessageId Undefined 1700000000000 ''0.5''\<rparr>] storeWithAccount;
           second = handlePreClassifiedImports defaultMonitored ''u1''
                      [invitation\<lparr>imp_messageId :=
                          localMessageId Undefined 1700000000001 ''0.5''\<rparr>] (fst first)
       in processed (snd first) = 1 \<and> processed (snd second) = 1 \<and> skipped (snd second) = 0
          \<and> length (emailImports (fst second)) = length (emailImports storeWithAccount) + 2"
    by blast
  ultimately show ?thesis using n by blast
qed

section \<open>Properties of the extraction engine\<close>

















end
